theory Spec2Isabelle
  imports Complex_Main "HOL-Library.Sublist"
begin

section \<open>JavaScript numbers\<close>

text \<open>
  The scorer of \<^verbatim>\<open>matching.service.ts\<close> computes with JavaScript numbers, which are
  IEEE 754 doubles. A finite double is modelled by the rational it denotes; \<open>fl\<close> rounds
  a rational to the nearest number with a 53 bit significand, ties to even. The exponent
  range is not bounded: every number computed here comes from 32 bit database integers
  and array lengths, far inside the normal range of doubles. Signed zeros are not
  distinguished.
\<close>

definition round_even :: "rat \<Rightarrow> int" where
  "round_even x =
     (let f = \<lfloor>x\<rfloor>; d = x - of_int f
      in if d < 1 / 2 then f else if 1 / 2 < d then f + 1 else if even f then f else f + 1)"

function log2_up :: "rat \<Rightarrow> nat" where
  "log2_up x = (if x < 2 then 0 else Suc (log2_up (x / 2)))"
  by pat_completeness auto
termination
proof (relation "measure (\<lambda>x. nat \<lfloor>x\<rfloor>)")
  show "wf (measure (\<lambda>x::rat. nat \<lfloor>x\<rfloor>))" by simp
next
  fix x :: rat
  assume "\<not> x < 2"
  then have "2 \<le> x" by simp
  then have "\<lfloor>x / 2\<rfloor> < \<lfloor>x\<rfloor>" by linarith
  moreover have "0 < \<lfloor>x\<rfloor>" using \<open>2 \<le> x\<close> by linarith
  ultimately show "(x / 2, x) \<in> measure (\<lambda>x. nat \<lfloor>x\<rfloor>)" by simp
qed

function log2_down :: "rat \<Rightarrow> nat" where
  "log2_down x = (if x \<le> 0 \<or> 1 \<le> x then 0 else Suc (log2_down (2 * x)))"
  by pat_completeness auto
termination
proof (relation "measure (\<lambda>x. nat \<lfloor>1 / x\<rfloor>)")
  show "wf (measure (\<lambda>x::rat. nat \<lfloor>1 / x\<rfloor>))" by simp
next
  fix x :: rat
  assume "\<not> (x \<le> 0 \<or> 1 \<le> x)"
  then have x: "0 < x" "x < 1" by simp_all
  define y where "y = 1 / x"
  have y: "1 < y" using x by (simp add: y_def)
  have h: "1 / (2 * x) = y / 2" by (simp add: y_def)
  have "\<lfloor>y / 2\<rfloor> < \<lfloor>y\<rfloor>"
  proof (cases "y < 2")
    case True
    then have "\<lfloor>y / 2\<rfloor> < 1" by (simp add: floor_less_iff)
    moreover have "1 \<le> \<lfloor>y\<rfloor>" using y by (simp add: le_floor_iff)
    ultimately show ?thesis by linarith
  next
    case False
    then show ?thesis by linarith
  qed
  moreover have "0 < \<lfloor>y\<rfloor>" using y by linarith
  ultimately show "(2 * x, x) \<in> measure (\<lambda>x. nat \<lfloor>1 / x\<rfloor>)"
    by (simp add: h y_def [symmetric])
qed

declare log2_up.simps [simp del] log2_down.simps [simp del]

text \<open>\<open>ilog2 x\<close> is the binary exponent of a positive \<open>x\<close>: \<open>2 ^ ilog2 x \<le> x < 2 ^ (ilog2 x + 1)\<close>.\<close>

definition ilog2 :: "rat \<Rightarrow> int" where
  "ilog2 x = (if 1 \<le> x then int (log2_up x) else - int (log2_down x))"

definition pow2 :: "int \<Rightarrow> rat" where
  "pow2 k = 2 powi k"

definition fl :: "rat \<Rightarrow> rat" where
  "fl x =
     (if x = 0 then 0
      else let u = pow2 (ilog2 \<bar>x\<bar> - 52)
           in sgn x * of_int (round_even (\<bar>x\<bar> / u)) * u)"

datatype jsnum = Fin rat | PosInfinity | NegInfinity | NaN

text \<open>The value of an integer column (Prisma \<open>Int\<close>, 32 bits) or of an array length.\<close>

definition num_of_int :: "int \<Rightarrow> jsnum" where
  "num_of_int n = Fin (of_int n)"

definition num_of_nat :: "nat \<Rightarrow> jsnum" where
  "num_of_nat n = Fin (of_nat n)"

fun js_add :: "jsnum \<Rightarrow> jsnum \<Rightarrow> jsnum" where
  "js_add (Fin a) (Fin b) = Fin (fl (a + b))"
| "js_add NaN _ = NaN"
| "js_add _ NaN = NaN"
| "js_add PosInfinity NegInfinity = NaN"
| "js_add NegInfinity PosInfinity = NaN"
| "js_add PosInfinity _ = PosInfinity"
| "js_add _ PosInfinity = PosInfinity"
| "js_add NegInfinity _ = NegInfinity"
| "js_add _ NegInfinity = NegInfinity"

definition signed_infinity :: "bool \<Rightarrow> jsnum" where
  "signed_infinity negative = (if negative then NegInfinity else PosInfinity)"

fun js_mul :: "jsnum \<Rightarrow> jsnum \<Rightarrow> jsnum" where
  "js_mul (Fin a) (Fin b) = Fin (fl (a * b))"
| "js_mul NaN _ = NaN"
| "js_mul _ NaN = NaN"
| "js_mul (Fin a) PosInfinity = (if a = 0 then NaN else signed_infinity (a < 0))"
| "js_mul (Fin a) NegInfinity = (if a = 0 then NaN else signed_infinity (0 < a))"
| "js_mul PosInfinity (Fin b) = (if b = 0 then NaN else signed_infinity (b < 0))"
| "js_mul NegInfinity (Fin b) = (if b = 0 then NaN else signed_infinity (0 < b))"
| "js_mul PosInfinity PosInfinity = PosInfinity"
| "js_mul NegInfinity NegInfinity = PosInfinity"
| "js_mul PosInfinity NegInfinity = NegInfinity"
| "js_mul NegInfinity PosInfinity = NegInfinity"

fun js_div :: "jsnum \<Rightarrow> jsnum \<Rightarrow> jsnum" where
  "js_div (Fin a) (Fin b) =
     (if b = 0 then (if a = 0 then NaN else signed_infinity (a < 0)) else Fin (fl (a / b)))"
| "js_div NaN _ = NaN"
| "js_div _ NaN = NaN"
| "js_div (Fin a) _ = Fin 0"
| "js_div PosInfinity (Fin b) = signed_infinity (b < 0)"
| "js_div NegInfinity (Fin b) = signed_infinity (0 \<le> b)"
| "js_div _ _ = NaN"

text \<open>\<^verbatim>\<open>Math.round\<close>: the nearest integer, a tie goes up.\<close>

fun Math_round :: "jsnum \<Rightarrow> jsnum" where
  "Math_round (Fin x) = Fin (of_int \<lfloor>x + 1 / 2\<rfloor>)"
| "Math_round n = n"

section \<open>JavaScript strings\<close>

text \<open>
  Strings are lists of characters. \<^verbatim>\<open>toLowerCase\<close> is modelled on ASCII letters (other
  characters are left as they are); \<^verbatim>\<open>a.includes(b)\<close> holds when \<open>b\<close> is a contiguous
  part of \<open>a\<close>.
\<close>

definition lower_char :: "char \<Rightarrow> char" where
  "lower_char c =
     (case map_of (zip ''ABCDEFGHIJKLMNOPQRSTUVWXYZ'' ''abcdefghijklmnopqrstuvwxyz'') c of
        Some l \<Rightarrow> l
      | None \<Rightarrow> c)"

definition toLowerCase :: "string \<Rightarrow> string" where
  "toLowerCase s = map lower_char s"

definition js_includes :: "string \<Rightarrow> string \<Rightarrow> bool" where
  "js_includes a b = sublist b a"

text \<open>The decimal digits of a natural number, as a template literal prints it.\<close>

definition digit_char :: "nat \<Rightarrow> char" where
  "digit_char d = ''0123456789'' ! d"

fun show_nat :: "nat \<Rightarrow> string" where
  "show_nat n =
     (if n < 10 then [digit_char n] else show_nat (n div 10) @ [digit_char (n mod 10)])"

declare show_nat.simps [simp del]

section \<open>Profiles, jobs and match results\<close>

text \<open>
  The fields of the Prisma models \<^verbatim>\<open>UserProfile\<close> and \<^verbatim>\<open>Job\<close> that the scorer and the
  controllers read. A nullable column is an \<open>option\<close>; a Prisma list is never null.
\<close>

datatype ExperienceLevel = ENTRY | MID | SENIOR | EXECUTIVE

datatype LocationType = ONSITE | REMOTE | HYBRID

record UserProfile =
  skills :: "string list"
  experienceYears :: "int option"
  preferredRoles :: "string list"
  location :: "string option"
  salaryMin :: "int option"

record Job =
  title :: string
  company :: string
  skillsRequired :: "string list"
  experienceLevel :: "ExperienceLevel option"
  salaryMax :: "int option"
  location :: "string option"
  locationType :: "LocationType option"
  applicationCount :: int

text \<open>
  The interface \<^verbatim>\<open>MatchResult\<close>. The deterministic scorer fills it with numbers and
  strings. The AI strategy fills it with whatever JSON the model returned (the interface
  is not checked at run time), so the types of \<^verbatim>\<open>reasons\<close> and of the five detail
  fields are parameters.
\<close>

record 'n MatchDetails =
  skillsMatch :: 'n
  experienceMatch :: 'n
  salaryMatch :: 'n
  locationMatch :: 'n
  overallFit :: 'n

record ('n, 'r) MatchResult =
  score :: jsnum
  reasons :: 'r
  details :: "'n MatchDetails"

type_synonym BasicMatchResult = "(jsnum, string list) MatchResult"

section \<open>The deterministic scorer\<close>

text \<open>
  \<^verbatim>\<open>calculateBasicMatchScore\<close> (matching.service.ts, lines 130 to 219) keeps three
  locals, \<^verbatim>\<open>score\<close>, \<^verbatim>\<open>reasons\<close> and \<^verbatim>\<open>details\<close>, and updates them in five guarded
  blocks. The locals are the fields of a \<open>MatchResult\<close> passed from block to block; each
  block is one function below, in the order of the source.
\<close>

definition initial :: BasicMatchResult where
  "initial =
     \<lparr>score = Fin 0, reasons = [],
      details = \<lparr>skillsMatch = Fin 0, experienceMatch = Fin 0, salaryMatch = Fin 0,
        locationMatch = Fin 0, overallFit = Fin 0\<rparr>\<rparr>"

text \<open>Lines 141 to 155: skills matching, weight 0.4.\<close>

definition matchingSkills :: "UserProfile \<Rightarrow> Job \<Rightarrow> string list" where
  "matchingSkills profile job =
     filter
       (\<lambda>skill. list_ex
          (\<lambda>req. js_includes (toLowerCase req) (toLowerCase skill) \<or>
                 js_includes (toLowerCase skill) (toLowerCase req))
          (skillsRequired job))
       (skills profile)"

definition skillsStep :: "UserProfile \<Rightarrow> Job \<Rightarrow> BasicMatchResult \<Rightarrow> BasicMatchResult" where
  "skillsStep profile job r =
     (if skills profile \<noteq> [] \<and> skillsRequired job \<noteq> [] then
        let n = length (matchingSkills profile job);
            m = Math_round
                  (js_mul (js_div (num_of_nat n) (num_of_nat (length (skillsRequired job))))
                     (Fin 100));
            r1 = r\<lparr>details := (details r)\<lparr>skillsMatch := m\<rparr>\<rparr>;
            r2 = r1\<lparr>score := js_add (score r1) (js_mul m (Fin (fl (2 / 5))))\<rparr>
        in if 0 < n
           then r2\<lparr>reasons := reasons r2 @ [''Matches '' @ show_nat n @ '' required skills'']\<rparr>
           else r2
      else r)"

text \<open>Lines 157 to 174: experience matching, weight 0.2.\<close>

fun expMap :: "ExperienceLevel \<Rightarrow> int" where
  "expMap ENTRY = 0"
| "expMap MID = 3"
| "expMap SENIOR = 5"
| "expMap EXECUTIVE = 8"

definition experienceStep :: "UserProfile \<Rightarrow> Job \<Rightarrow> BasicMatchResult \<Rightarrow> BasicMatchResult" where
  "experienceStep profile job r =
     (case (experienceYears profile, experienceLevel job) of
        (Some years, Some level) \<Rightarrow>
          if years \<noteq> 0 then
            let requiredExp = (if expMap level \<noteq> 0 then expMap level else 0);
                r1 = (if requiredExp \<le> years
                      then r\<lparr>details := (details r)\<lparr>experienceMatch := Fin 100\<rparr>,
                             reasons := reasons r @ [''Experience level matches requirements'']\<rparr>
                      else r\<lparr>details := (details r)\<lparr>experienceMatch :=
                             Math_round
                               (js_mul (js_div (num_of_int years) (num_of_int requiredExp))
                                  (Fin 100))\<rparr>\<rparr>)
            in r1\<lparr>score :=
                  js_add (score r1) (js_mul (experienceMatch (details r1)) (Fin (fl (1 / 5))))\<rparr>
          else r
      | _ \<Rightarrow> r)"

text \<open>Lines 176 to 185: salary matching, weight 0.2.\<close>

definition salaryStep :: "UserProfile \<Rightarrow> Job \<Rightarrow> BasicMatchResult \<Rightarrow> BasicMatchResult" where
  "salaryStep profile job r =
     (case (salaryMin profile, salaryMax job) of
        (Some lo, Some hi) \<Rightarrow>
          if lo \<noteq> 0 \<and> hi \<noteq> 0 then
            let r1 = (if lo \<le> hi
                      then r\<lparr>details := (details r)\<lparr>salaryMatch := Fin 100\<rparr>,
                             reasons := reasons r @ [''Salary expectations align'']\<rparr>
                      else r\<lparr>details := (details r)\<lparr>salaryMatch :=
                             Math_round
                               (js_mul (js_div (num_of_int hi) (num_of_int lo)) (Fin 100))\<rparr>\<rparr>)
            in r1\<lparr>score :=
                  js_add (score r1) (js_mul (salaryMatch (details r1)) (Fin (fl (1 / 5))))\<rparr>
          else r
      | _ \<Rightarrow> r)"

text \<open>Lines 187 to 200: location matching, weight 0.1.\<close>

definition locationStep :: "UserProfile \<Rightarrow> Job \<Rightarrow> BasicMatchResult \<Rightarrow> BasicMatchResult" where
  "locationStep profile job r =
     (case (UserProfile.location profile, Job.location job) of
        (Some pl, Some jl) \<Rightarrow>
          if pl \<noteq> [] \<and> jl \<noteq> [] then
            let profileLoc = toLowerCase pl;
                jobLoc = toLowerCase jl;
                r1 = (if profileLoc = jobLoc \<or> js_includes jobLoc profileLoc \<or>
                         js_includes profileLoc jobLoc
                      then r\<lparr>details := (details r)\<lparr>locationMatch := Fin 100\<rparr>,
                             reasons := reasons r @ [''Location matches preference'']\<rparr>
                      else if locationType job = Some REMOTE
                      then r\<lparr>details := (details r)\<lparr>locationMatch := Fin 80\<rparr>,
                             reasons := reasons r @ [''Remote position available'']\<rparr>
                      else r)
            in r1\<lparr>score :=
                  js_add (score r1) (js_mul (locationMatch (details r1)) (Fin (fl (1 / 10))))\<rparr>
          else r
      | _ \<Rightarrow> r)"

text \<open>Lines 202 to 212: role matching, weight 0.1.\<close>

definition roleStep :: "UserProfile \<Rightarrow> Job \<Rightarrow> BasicMatchResult \<Rightarrow> BasicMatchResult" where
  "roleStep profile job r =
     (if preferredRoles profile \<noteq> [] then
        let titleMatch =
              list_ex (\<lambda>role. js_includes (toLowerCase (title job)) (toLowerCase role))
                (preferredRoles profile);
            r1 = (if titleMatch
                  then r\<lparr>details := (details r)\<lparr>overallFit := Fin 100\<rparr>,
                         reasons := reasons r @ [''Job title matches preferred roles'']\<rparr>
                  else r)
        in r1\<lparr>score := js_add (score r1) (js_mul (overallFit (details r1)) (Fin (fl (1 / 10))))\<rparr>
      else r)"

text \<open>Lines 214 to 218: the returned object.\<close>

definition finish :: "BasicMatchResult \<Rightarrow> BasicMatchResult" where
  "finish r =
     \<lparr>score = Math_round (score r),
      reasons = (if 0 < length (reasons r) then reasons r else [''General profile match'']),
      details = details r\<rparr>"

definition calculateBasicMatchScore :: "UserProfile \<Rightarrow> Job \<Rightarrow> BasicMatchResult" where
  "calculateBasicMatchScore profile job =
     finish
       (roleStep profile job
          (locationStep profile job
             (salaryStep profile job
                (experienceStep profile job
                   (skillsStep profile job initial)))))"

section \<open>The AI strategy and its fallback\<close>

text \<open>
  \<^verbatim>\<open>calculateMatchScore\<close> (matching.service.ts, lines 29 to 78) runs the AI strategy
  inside \<^verbatim>\<open>try\<close> and the deterministic scorer inside \<^verbatim>\<open>catch\<close>. The OpenAI client and
  \<^verbatim>\<open>JSON.parse\<close> are not code of the repository: the outcome of the request and the
  parser are parameters. \<^verbatim>\<open>buildMatchingPrompt\<close> only formats the text of the request.
\<close>

datatype json =
  JNull | JBool bool | JNum jsnum | JStr string | JArr "json list" | JObj "(string \<times> json) list"

text \<open>
  The outcome of \<^verbatim>\<open>openai.chat.completions.create\<close> followed by
  \<^verbatim>\<open>response.choices[0]?.message?.content\<close>: the call or the access raised, or the content
  is \<^verbatim>\<open>null\<close> or \<^verbatim>\<open>undefined\<close> (\<open>None\<close>), or it is a string.
\<close>

datatype api_result = Raised | Content "string option"

text \<open>
  A JavaScript value is a JSON value or \<^verbatim>\<open>undefined\<close> (\<open>None\<close>). \<open>member v k\<close> is
  \<^verbatim>\<open>v.k\<close> for a value that is not null and a key that is no built-in property (the keys
  read here are score, reasons, details and the five detail names).
\<close>

fun member :: "json \<Rightarrow> string \<Rightarrow> json option" where
  "member (JObj kvs) k = map_of kvs k"
| "member _ k = None"

text \<open>\<^verbatim>\<open>v?.k\<close>\<close>

fun optional_member :: "json option \<Rightarrow> string \<Rightarrow> json option" where
  "optional_member None k = None"
| "optional_member (Some JNull) k = None"
| "optional_member (Some v) k = member v k"

fun truthy :: "json option \<Rightarrow> bool" where
  "truthy None = False"
| "truthy (Some JNull) = False"
| "truthy (Some (JBool b)) = b"
| "truthy (Some (JNum (Fin x))) = (x \<noteq> 0)"
| "truthy (Some (JNum NaN)) = False"
| "truthy (Some (JNum _)) = True"
| "truthy (Some (JStr s)) = (s \<noteq> [])"
| "truthy (Some _) = True"

text \<open>\<^verbatim>\<open>v || d\<close>\<close>

definition js_or :: "json option \<Rightarrow> json \<Rightarrow> json" where
  "js_or v d = (case v of Some x \<Rightarrow> if truthy v then x else d | None \<Rightarrow> d)"

text \<open>
  \<^verbatim>\<open>ToNumber\<close>, which \<^verbatim>\<open>Math.round\<close> applies to its argument; \<open>None\<close> when it raises
  a TypeError. An object is first converted to a primitive: the inherited
  \<^verbatim>\<open>valueOf\<close> returns the object itself, so the result is that of \<^verbatim>\<open>toString\<close>, which is
  \<^verbatim>\<open>"[object Object]"\<close> and not a number, unless the object has a property of its own
  named \<^verbatim>\<open>toString\<close> (no JSON value is callable), and then the conversion raises. On a
  string and on an array the conversion goes through the runtime's string conversions,
  the parameter \<open>coerce\<close>.
\<close>

fun toNumber :: "(json \<Rightarrow> jsnum option) \<Rightarrow> json option \<Rightarrow> jsnum option" where
  "toNumber coerce None = Some NaN"
| "toNumber coerce (Some JNull) = Some (Fin 0)"
| "toNumber coerce (Some (JBool b)) = Some (Fin (if b then 1 else 0))"
| "toNumber coerce (Some (JNum n)) = Some n"
| "toNumber coerce (Some (JObj kvs)) = (if map_of kvs ''toString'' = None then Some NaN else None)"
| "toNumber coerce (Some v) = coerce v"

type_synonym AIMatchResult = "(json, json) MatchResult"

text \<open>
  Lines 61 to 71: the object built from the parsed response; \<open>None\<close> when building it
  raises. Reading \<^verbatim>\<open>parsed.score\<close> raises a TypeError when \<^verbatim>\<open>parsed\<close> is null, and
  \<^verbatim>\<open>Math.round\<close> raises when the conversion of the score to a number does; nothing else
  raises.
\<close>

definition fromParsed :: "(json \<Rightarrow> jsnum option) \<Rightarrow> json \<Rightarrow> AIMatchResult option" where
  "fromParsed coerce parsed =
     (if parsed = JNull then None
      else
        (case toNumber coerce (member parsed ''score'') of
           None \<Rightarrow> None
         | Some n \<Rightarrow>
             let d = member parsed ''details'' in
             Some \<lparr>score = Math_round n,
                   reasons = js_or (member parsed ''reasons'') (JArr []),
                   details =
                     \<lparr>skillsMatch = js_or (optional_member d ''skillsMatch'') (JNum (Fin 0)),
                      experienceMatch = js_or (optional_member d ''experienceMatch'') (JNum (Fin 0)),
                      salaryMatch = js_or (optional_member d ''salaryMatch'') (JNum (Fin 0)),
                      locationMatch = js_or (optional_member d ''locationMatch'') (JNum (Fin 0)),
                      overallFit = js_or (optional_member d ''overallFit'') (JNum (Fin 0))\<rparr>\<rparr>))"

text \<open>Lines 33 to 71, the \<^verbatim>\<open>try\<close> block: \<open>None\<close> when it raises.\<close>

definition tryAI ::
  "api_result \<Rightarrow> (string \<Rightarrow> json option) \<Rightarrow> (json \<Rightarrow> jsnum option) \<Rightarrow>
     AIMatchResult option" where
  "tryAI response JSON_parse coerce =
     (case response of
        Raised \<Rightarrow> None
      | Content None \<Rightarrow> None
      | Content (Some content) \<Rightarrow>
          if content = [] then None
          else (case JSON_parse content of
                  None \<Rightarrow> None
                | Some parsed \<Rightarrow> fromParsed coerce parsed))"

text \<open>
  What \<^verbatim>\<open>calculateMatchScore\<close> returns: the object the \<^verbatim>\<open>try\<close> block built, or the result
  of the deterministic scorer called in \<^verbatim>\<open>catch\<close>.
\<close>

datatype ScoreResult = FromAI AIMatchResult | Fallback BasicMatchResult

definition calculateMatchScore ::
  "api_result \<Rightarrow> (string \<Rightarrow> json option) \<Rightarrow> (json \<Rightarrow> jsnum option) \<Rightarrow> UserProfile \<Rightarrow>
     Job \<Rightarrow> ScoreResult" where
  "calculateMatchScore response JSON_parse coerce profile job =
     (case tryAI response JSON_parse coerce of
        Some r \<Rightarrow> FromAI r
      | None \<Rightarrow> Fallback (calculateBasicMatchScore profile job))"

section \<open>The database\<close>

text \<open>
  The tables the controllers read and write, as lists of rows in table order;
  \<^verbatim>\<open>user_preferences\<close> and \<^verbatim>\<open>jobs\<close> are maps from their primary key. A timestamp is a
  number of milliseconds. Decimal columns are rationals.
\<close>

datatype ApplicationStatus =
  PENDING | APPLIED | VIEWED | SHORTLISTED | INTERVIEW | OFFER | REJECTED | WITHDRAWN

record UserPreferences =
  autoApplyEnabled :: bool
  autoApplyThreshold :: rat
  autoApplyMaxPerDay :: int

record Application =
  userId :: string
  jobId :: string
  status :: ApplicationStatus
  matchScore :: "rat option"
  matchReasons :: "string list"
  isAutoApplied :: bool
  createdAt :: int

record JobMatchCache =
  userId :: string
  jobId :: string
  matchScore :: rat
  matchDetails :: "json option"
  isFavorite :: bool
  isHidden :: bool
  calculatedAt :: int

record Database =
  userPreferences :: "string \<rightharpoonup> UserPreferences"
  jobs :: "string \<rightharpoonup> Job"
  applications :: "Application list"
  jobMatchCache :: "JobMatchCache list"

text \<open>
  \<open>ApiError\<close> carries the status and the code of the controllers' own errors;
  \<open>PrismaError\<close> the code of an error the database client raises (P2002: unique
  constraint, P2003: foreign key, P2025: record not found).
\<close>

datatype error = ApiError nat string | PrismaError string

text \<open>
  \<^verbatim>\<open>prisma.application.create\<close>: \<^verbatim>\<open>UNIQUE(user_id, job_id)\<close> and the foreign key to
  \<^verbatim>\<open>jobs\<close> are checked by the database.
\<close>

definition application_create :: "Application \<Rightarrow> Database \<Rightarrow> error + Database" where
  "application_create a db =
     (if list_ex (\<lambda>b. Application.userId b = Application.userId a \<and>
                       Application.jobId b = Application.jobId a) (applications db)
      then Inl (PrismaError ''P2002'')
      else if jobs db (Application.jobId a) = None then Inl (PrismaError ''P2003'')
      else Inr (db\<lparr>applications := applications db @ [a]\<rparr>))"

text \<open>\<^verbatim>\<open>prisma.job.update\<close> with \<^verbatim>\<open>applicationCount: { increment: 1 }\<close>\<close>

definition job_increment :: "string \<Rightarrow> Database \<Rightarrow> error + Database" where
  "job_increment jid db =
     (case jobs db jid of
        None \<Rightarrow> Inl (PrismaError ''P2025'')
      | Some j \<Rightarrow>
          Inr (db\<lparr>jobs := (jobs db)(jid \<mapsto> j\<lparr>applicationCount := applicationCount j + 1\<rparr>)\<rparr>))"

text \<open>\<^verbatim>\<open>prisma.jobMatchCache.findUnique\<close> on the key \<^verbatim>\<open>userId_jobId\<close>\<close>

definition cache_findUnique :: "string \<Rightarrow> string \<Rightarrow> Database \<Rightarrow> JobMatchCache option" where
  "cache_findUnique uid jid db =
     find (\<lambda>m. JobMatchCache.userId m = uid \<and> JobMatchCache.jobId m = jid) (jobMatchCache db)"

text \<open>\<^verbatim>\<open>prisma.jobMatchCache.update\<close> on the key \<^verbatim>\<open>userId_jobId\<close>\<close>

definition cache_update ::
  "string \<Rightarrow> string \<Rightarrow> (JobMatchCache \<Rightarrow> JobMatchCache) \<Rightarrow> Database \<Rightarrow> Database" where
  "cache_update uid jid f db =
     db\<lparr>jobMatchCache :=
          map (\<lambda>m. if JobMatchCache.userId m = uid \<and> JobMatchCache.jobId m = jid then f m else m)
            (jobMatchCache db)\<rparr>"

text \<open>\<^verbatim>\<open>prisma.jobMatchCache.create\<close>\<close>

definition cache_create :: "JobMatchCache \<Rightarrow> Database \<Rightarrow> error + Database" where
  "cache_create m db =
     (if cache_findUnique (JobMatchCache.userId m) (JobMatchCache.jobId m) db \<noteq> None
      then Inl (PrismaError ''P2002'')
      else if jobs db (JobMatchCache.jobId m) = None then Inl (PrismaError ''P2003'')
      else Inr (db\<lparr>jobMatchCache := jobMatchCache db @ [m]\<rparr>))"

text \<open>The invariant of the \<^verbatim>\<open>applications\<close> table: \<^verbatim>\<open>UNIQUE(user_id, job_id)\<close>.\<close>

definition unique_applications :: "Database \<Rightarrow> bool" where
  "unique_applications db =
     distinct (map (\<lambda>a. (Application.userId a, Application.jobId a)) (applications db))"

section \<open>Auto-apply\<close>

text \<open>
  \<^verbatim>\<open>autoApply\<close> (application controller, lines 345 to 444). The route runs behind
  \<^verbatim>\<open>authenticate\<close>, so \<^verbatim>\<open>req.user.id\<close> is a user id. \<open>today\<close> is the local midnight the
  handler computes from the clock, \<open>now\<close> the time the database stamps on a new row.
\<close>

text \<open>Lines 359 to 367.\<close>

definition dailyCount :: "string \<Rightarrow> int \<Rightarrow> Database \<Rightarrow> nat" where
  "dailyCount uid today db =
     length (filter (\<lambda>a. Application.userId a = uid \<and> isAutoApplied a \<and> today \<le> createdAt a)
       (applications db))"

text \<open>
  Lines 374 to 385, without the \<^verbatim>\<open>include\<close>. Rows of equal score come in table order
  (the database is free to order them).
\<close>

definition findMatchedJobs :: "string \<Rightarrow> rat \<Rightarrow> nat \<Rightarrow> Database \<Rightarrow> JobMatchCache list" where
  "findMatchedJobs uid threshold n db =
     take n
       (sort_key (\<lambda>m. - JobMatchCache.matchScore m)
          (filter (\<lambda>m. JobMatchCache.userId m = uid \<and> threshold \<le> JobMatchCache.matchScore m \<and>
                        \<not> isHidden m)
             (jobMatchCache db)))"

text \<open>
  \<^verbatim>\<open>include: { job: true }\<close>: each row with its job. The relation is required; a row
  without its job (which the foreign key excludes) makes the query fail.
\<close>

fun includeJob :: "(string \<rightharpoonup> Job) \<Rightarrow> JobMatchCache list \<Rightarrow> (JobMatchCache \<times> Job) list option" where
  "includeJob js [] = Some []"
| "includeJob js (m # ms) =
     (case js (JobMatchCache.jobId m) of
        None \<Rightarrow> None
      | Some j \<Rightarrow> map_option ((#) (m, j)) (includeJob js ms))"

text \<open>Lines 405 to 414: the row written for one match.\<close>

definition newApplication ::
  "(json \<Rightarrow> string list) \<Rightarrow> int \<Rightarrow> string \<Rightarrow> JobMatchCache \<Rightarrow> Application" where
  "newApplication objectKeys now uid m =
     \<lparr>Application.userId = uid,
      Application.jobId = JobMatchCache.jobId m,
      status = PENDING,
      Application.matchScore = Some (JobMatchCache.matchScore m),
      matchReasons = (case matchDetails m of
                        Some d \<Rightarrow> if truthy (Some d) then objectKeys d else []
                      | None \<Rightarrow> []),
      isAutoApplied = True,
      createdAt = now\<rparr>"

text \<open>
  Lines 403 to 423: the loop. No transaction wraps it: when a write fails, the rows
  written before stay, and the error leaves the handler.
\<close>

fun createApplications ::
  "(json \<Rightarrow> string list) \<Rightarrow> int \<Rightarrow> string \<Rightarrow> (JobMatchCache \<times> Job) list \<Rightarrow> Database \<Rightarrow>
     Application list \<Rightarrow> Database \<times> (error + Application list)" where
  "createApplications objectKeys now uid [] db acc = (db, Inr acc)"
| "createApplications objectKeys now uid (mj # rest) db acc =
     (let application = newApplication objectKeys now uid (fst mj) in
      case application_create application db of
        Inl e \<Rightarrow> (db, Inl e)
      | Inr db1 \<Rightarrow>
          (case job_increment (JobMatchCache.jobId (fst mj)) db1 of
             Inl e \<Rightarrow> (db1, Inl e)
           | Inr db2 \<Rightarrow> createApplications objectKeys now uid rest db2 (acc @ [application])))"

record JobSummary =
  summaryId :: string
  summaryTitle :: string
  summaryCompany :: string
  summaryMatchScore :: rat

record AutoApplyResponse =
  applicationsCreated :: nat
  appliedJobs :: "JobSummary list"

text \<open>Lines 388 to 400: the matches whose job has no application of the user yet.\<close>

definition jobsToApply ::
  "string \<Rightarrow> (JobMatchCache \<times> Job) list \<Rightarrow> Database \<Rightarrow> (JobMatchCache \<times> Job) list" where
  "jobsToApply uid matchedJobs db =
     (let jobIds = map (\<lambda>mj. JobMatchCache.jobId (fst mj)) matchedJobs;
          existingApplications =
            filter (\<lambda>a. Application.userId a = uid \<and> Application.jobId a \<in> set jobIds)
              (applications db);
          appliedJobIds = set (map Application.jobId existingApplications)
      in filter (\<lambda>mj. JobMatchCache.jobId (fst mj) \<notin> appliedJobIds) matchedJobs)"

definition autoApply ::
  "(json \<Rightarrow> string list) \<Rightarrow> int \<Rightarrow> int \<Rightarrow> string \<Rightarrow> Database \<Rightarrow>
     Database \<times> (error + AutoApplyResponse)" where
  "autoApply objectKeys today now uid db =
     (case userPreferences db uid of
        None \<Rightarrow> (db, Inl (ApiError 400 ''AUTO_APPLY_DISABLED''))
      | Some preferences \<Rightarrow>
          if \<not> autoApplyEnabled preferences
          then (db, Inl (ApiError 400 ''AUTO_APPLY_DISABLED''))
          else if autoApplyMaxPerDay preferences \<le> int (dailyCount uid today db)
          then (db, Inl (ApiError 429 ''RATE_LIMIT''))
          else
            (case includeJob (jobs db)
                    (findMatchedJobs uid (autoApplyThreshold preferences)
                       (nat (autoApplyMaxPerDay preferences - int (dailyCount uid today db))) db) of
               None \<Rightarrow> (db, Inl (PrismaError ''inconsistent query result''))
             | Some matchedJobs \<Rightarrow>
                 (case createApplications objectKeys now uid (jobsToApply uid matchedJobs db) db [] of
                    (db', Inl e) \<Rightarrow> (db', Inl e)
                  | (db', Inr created) \<Rightarrow>
                      (db',
                       Inr \<lparr>applicationsCreated = length created,
                            appliedJobs =
                              map (\<lambda>mj. \<lparr>summaryId = JobMatchCache.jobId (fst mj),
                                         summaryTitle = title (snd mj),
                                         summaryCompany = company (snd mj),
                                         summaryMatchScore = JobMatchCache.matchScore (fst mj)\<rparr>)
                                (jobsToApply uid matchedJobs db)\<rparr>))))"

section \<open>Favourites and hidden jobs\<close>

text \<open>
  \<^verbatim>\<open>toggleFavorite\<close> and \<^verbatim>\<open>hideJob\<close> (job controller, lines 305 to 424).
  \<open>user\<close> is \<^verbatim>\<open>req.user\<close>, \<open>None\<close> when the request is not authenticated; \<open>jid\<close> is the
  \<^verbatim>\<open>:id\<close> of the route.
\<close>

definition toggleFavorite ::
  "string option \<Rightarrow> string \<Rightarrow> int \<Rightarrow> Database \<Rightarrow> Database \<times> (error + bool)" where
  "toggleFavorite user jid now db =
     (case user of
        None \<Rightarrow> (db, Inl (ApiError 401 ''UNAUTHORIZED''))
      | Some uid \<Rightarrow>
          (case jobs db jid of
             None \<Rightarrow> (db, Inl (ApiError 404 ''NOT_FOUND''))
           | Some job \<Rightarrow>
               (case cache_findUnique uid jid db of
                  Some existingCache \<Rightarrow>
                    (cache_update uid jid (\<lambda>m. m\<lparr>isFavorite := \<not> isFavorite existingCache\<rparr>) db,
                     Inr (\<not> isFavorite existingCache))
                | None \<Rightarrow>
                    (case cache_create
                            \<lparr>JobMatchCache.userId = uid, JobMatchCache.jobId = jid,
                             JobMatchCache.matchScore = 0, matchDetails = None,
                             isFavorite = True, isHidden = False, calculatedAt = now\<rparr> db of
                       Inl e \<Rightarrow> (db, Inl e)
                     | Inr db' \<Rightarrow> (db', Inr True)))))"

definition hideJob ::
  "string option \<Rightarrow> string \<Rightarrow> int \<Rightarrow> Database \<Rightarrow> Database \<times> (error + unit)" where
  "hideJob user jid now db =
     (case user of
        None \<Rightarrow> (db, Inl (ApiError 401 ''UNAUTHORIZED''))
      | Some uid \<Rightarrow>
          (case jobs db jid of
             None \<Rightarrow> (db, Inl (ApiError 404 ''NOT_FOUND''))
           | Some job \<Rightarrow>
               (case cache_findUnique uid jid db of
                  Some existingCache \<Rightarrow>
                    (cache_update uid jid (\<lambda>m. m\<lparr>isHidden := True\<rparr>) db, Inr ())
                | None \<Rightarrow>
                    (case cache_create
                            \<lparr>JobMatchCache.userId = uid, JobMatchCache.jobId = jid,
                             JobMatchCache.matchScore = 0, matchDetails = None,
                             isFavorite = False, isHidden = True, calculatedAt = now\<rparr> db of
                       Inl e \<Rightarrow> (db, Inl e)
                     | Inr db' \<Rightarrow> (db', Inr ())))))"

section \<open>Example data\<close>

text \<open>The profile and the job of the specification's example scenario.\<close>

definition profile_example :: UserProfile where
  "profile_example =
     \<lparr>skills = [''JavaScript'', ''React''], experienceYears = Some 4,
      preferredRoles = [''Frontend Engineer''], location = Some ''Remote'',
      salaryMin = Some 80000\<rparr>"

definition job_example :: Job where
  "job_example =
     \<lparr>title = ''Frontend Engineer'', company = ''Acme'',
      skillsRequired = [''React'', ''TypeScript''], experienceLevel = Some MID,
      salaryMax = Some 90000, location = Some ''Berlin'', locationType = Some REMOTE,
      applicationCount = 0\<rparr>"

text \<open>A profile that lists two skills containing the one skill a job requires.\<close>

definition profile_overlap :: UserProfile where
  "profile_overlap =
     \<lparr>skills = [''React'', ''React Native'', ''JavaScript''], experienceYears = Some 5,
      preferredRoles = [''Frontend Engineer''], location = Some ''Berlin'',
      salaryMin = Some 80000\<rparr>"

definition job_overlap :: Job where
  "job_overlap =
     \<lparr>title = ''Senior Frontend Engineer'', company = ''Acme'',
      skillsRequired = [''React''], experienceLevel = Some MID,
      salaryMax = Some 90000, location = Some ''Berlin'', locationType = Some ONSITE,
      applicationCount = 0\<rparr>"

text \<open>
  Stand-ins for \<^verbatim>\<open>JSON.parse\<close> and for \<^verbatim>\<open>ToNumber\<close> on strings, where an example needs
  them: a parser that knows two texts, the empty object and (written here without its
  quotation marks and braces) the object whose only member is a score of 85.
\<close>

definition parse_example :: "string \<Rightarrow> json option" where
  "parse_example s =
     (if s = ''{}'' then Some (JObj [])
      else if s = ''score 85'' then Some (JObj [(''score'', JNum (Fin 85))])
      else None)"

definition coerce_example :: "json \<Rightarrow> jsnum option" where
  "coerce_example v = Some NaN"

text \<open>
  A database with one user who has applied to job-2 by hand, three cached matches and
  auto-apply enabled with a threshold of 50 and two applications a day; and the same
  database after one call of \<open>autoApply\<close> at time 2000.
\<close>

definition db_example :: Database where
  "db_example =
     \<lparr>userPreferences = [''user-1'' \<mapsto>
        \<lparr>autoApplyEnabled = True, autoApplyThreshold = 50, autoApplyMaxPerDay = 2\<rparr>],
      jobs = [''job-1'' \<mapsto> job_example, ''job-2'' \<mapsto> job_overlap, ''job-3'' \<mapsto> job_example,
        ''job-4'' \<mapsto> job_overlap],
      applications =
        [\<lparr>Application.userId = ''user-1'', Application.jobId = ''job-2'', status = APPLIED,
          Application.matchScore = Some 90, matchReasons = [], isAutoApplied = False,
          createdAt = 1000\<rparr>],
      jobMatchCache =
        [\<lparr>JobMatchCache.userId = ''user-1'', JobMatchCache.jobId = ''job-1'',
          JobMatchCache.matchScore = 78, matchDetails = None, isFavorite = True,
          isHidden = False, calculatedAt = 500\<rparr>,
         \<lparr>JobMatchCache.userId = ''user-1'', JobMatchCache.jobId = ''job-2'',
          JobMatchCache.matchScore = 90, matchDetails = None, isFavorite = False,
          isHidden = False, calculatedAt = 500\<rparr>,
         \<lparr>JobMatchCache.userId = ''user-1'', JobMatchCache.jobId = ''job-3'',
          JobMatchCache.matchScore = 40, matchDetails = None, isFavorite = False,
          isHidden = False, calculatedAt = 500\<rparr>]\<rparr>"

definition db_after_autoApply :: Database where
  "db_after_autoApply =
     db_example
       \<lparr>jobs := (jobs db_example)(''job-1'' \<mapsto> job_example\<lparr>applicationCount := 1\<rparr>),
        applications := applications db_example @
          [\<lparr>Application.userId = ''user-1'', Application.jobId = ''job-1'', status = PENDING,
            Application.matchScore = Some 78, matchReasons = [], isAutoApplied = True,
            createdAt = 2000\<rparr>]\<rparr>"

section \<open>Properties of the rounding function\<close>

lemma pow2_nat: "pow2 (int n) = 2 ^ n"
  by (simp add: pow2_def)

lemma pow2_neg_nat: "pow2 (- int n) = 1 / 2 ^ n"
  by (simp add: pow2_def power_int_minus field_simps)

lemma pow2_pos: "0 < pow2 k"
  by (simp add: pow2_def)

lemma pow2_Suc: "pow2 (k + 1) = 2 * pow2 k"
  by (simp add: pow2_def power_int_add)

lemma pow2_mono: "a \<le> b \<Longrightarrow> pow2 a \<le> pow2 b"
  by (simp add: pow2_def power_int_increasing)

lemma pow2_add: "pow2 (a + b) = pow2 a * pow2 b"
  by (simp add: pow2_def power_int_add)

lemma log2_up_spec: "1 \<le> x \<Longrightarrow> 2 ^ log2_up x \<le> x \<and> x < 2 ^ Suc (log2_up x)"
proof (induction x rule: log2_up.induct)
  case (1 x)
  show ?case
  proof (cases "x < 2")
    case True
    then have "log2_up x = 0" by (subst log2_up.simps) simp
    with True "1.prems" show ?thesis by simp
  next
    case False
    then have "1 \<le> x / 2" by simp
    with "1.IH" False have "2 ^ log2_up (x / 2) \<le> x / 2 \<and> x / 2 < 2 ^ Suc (log2_up (x / 2))"
      by blast
    moreover have "log2_up x = Suc (log2_up (x / 2))"
      using False by (subst log2_up.simps) simp
    ultimately show ?thesis by simp
  qed
qed

lemma log2_down_spec:
  "0 < x \<Longrightarrow> x < 1 \<Longrightarrow> 1 \<le> x * 2 ^ log2_down x \<and> x * 2 ^ log2_down x < 2"
proof (induction x rule: log2_down.induct)
  case (1 x)
  have unfold: "log2_down x = Suc (log2_down (2 * x))"
    using "1.prems" by (subst log2_down.simps) simp
  show ?case
  proof (cases "2 * x < 1")
    case True
    with "1.IH" "1.prems"
    have "1 \<le> 2 * x * 2 ^ log2_down (2 * x) \<and> 2 * x * 2 ^ log2_down (2 * x) < 2"
      by simp
    then show ?thesis by (simp add: unfold mult.assoc mult.left_commute)
  next
    case False
    then have "log2_down (2 * x) = 0" by (subst log2_down.simps) simp
    with False "1.prems" show ?thesis by (simp add: unfold)
  qed
qed

lemma ilog2_spec:
  assumes "0 < x"
  shows "pow2 (ilog2 x) \<le> x \<and> x < pow2 (ilog2 x + 1)"
proof (cases "1 \<le> x")
  case True
  have "pow2 (int (log2_up x) + 1) = 2 ^ Suc (log2_up x)"
    by (simp add: pow2_Suc pow2_nat)
  with log2_up_spec [OF True] show ?thesis
    using True by (simp add: ilog2_def pow2_nat)
next
  case False
  then have lt: "x < 1" by simp
  define n where "n = log2_down x"
  from log2_down_spec [OF assms lt] have b: "1 \<le> x * 2 ^ n" "x * 2 ^ n < 2"
    by (simp_all add: n_def)
  have il: "ilog2 x = - int n" using False by (simp add: ilog2_def n_def)
  have p1: "pow2 (- int n) = 1 / 2 ^ n" by (rule pow2_neg_nat)
  have p2: "pow2 (- int n + 1) = 2 / 2 ^ n"
    unfolding pow2_Suc p1 by simp
  have "1 / 2 ^ n \<le> x" using b(1) by (simp add: field_simps)
  moreover have "x < 2 / 2 ^ n" using b(2) by (simp add: field_simps)
  ultimately show ?thesis unfolding il p1 p2 by simp
qed

lemma ilog2_mono:
  assumes "0 < x" "x \<le> y"
  shows "ilog2 x \<le> ilog2 y"
proof (rule ccontr)
  assume "\<not> ilog2 x \<le> ilog2 y"
  then have "ilog2 y + 1 \<le> ilog2 x" by simp
  then have "pow2 (ilog2 y + 1) \<le> pow2 (ilog2 x)" by (rule pow2_mono)
  moreover have "y < pow2 (ilog2 y + 1)" using ilog2_spec [of y] assms by simp
  moreover have "pow2 (ilog2 x) \<le> x" using ilog2_spec [of x] assms by simp
  ultimately show False using assms by linarith
qed

lemma round_even_cases: "round_even x = \<lfloor>x\<rfloor> \<or> round_even x = \<lfloor>x\<rfloor> + 1"
  by (simp add: round_even_def Let_def)

lemma round_even_of_int: "round_even (of_int n) = n"
  by (simp add: round_even_def)

lemma round_even_mono:
  assumes "x \<le> y"
  shows "round_even x \<le> round_even y"
proof (cases "\<lfloor>x\<rfloor> = \<lfloor>y\<rfloor>")
  case True
  then show ?thesis using assms by (auto simp add: round_even_def Let_def)
next
  case False
  moreover have "\<lfloor>x\<rfloor> \<le> \<lfloor>y\<rfloor>" using assms by (rule floor_mono)
  ultimately have "\<lfloor>x\<rfloor> + 1 \<le> \<lfloor>y\<rfloor>" by simp
  moreover have "round_even x \<le> \<lfloor>x\<rfloor> + 1" using round_even_cases [of x] by auto
  moreover have "\<lfloor>y\<rfloor> \<le> round_even y" using round_even_cases [of y] by auto
  ultimately show ?thesis by linarith
qed

text \<open>A positive number and its rounding lie in the same binade, ends included.\<close>

lemma fl_pos_bounds:
  assumes "0 < x"
  shows "pow2 (ilog2 x) \<le> fl x \<and> fl x \<le> pow2 (ilog2 x + 1)"
proof -
  define k where "k = ilog2 x"
  define u where "u = pow2 (k - 52)"
  have upos: "0 < u" by (simp add: u_def pow2_pos)
  have flx: "fl x = of_int (round_even (x / u)) * u"
    using assms by (simp add: fl_def u_def k_def Let_def)
  have pk: "pow2 k = 2 ^ 52 * u"
    using pow2_add [of 52 "k - 52"] pow2_nat [of 52] by (simp add: u_def)
  have pk1: "pow2 (k + 1) = 2 ^ 53 * u"
    by (simp add: pow2_Suc pk)
  have "pow2 k \<le> x" "x < pow2 (k + 1)"
    using ilog2_spec [OF assms] unfolding k_def by simp_all
  then have xlo: "2 ^ 52 * u \<le> x" and xhi: "x < 2 ^ 53 * u"
    unfolding pk pk1 by simp_all
  have lo: "of_int (2 ^ 52) \<le> x / u"
    using xlo upos by (simp add: field_simps)
  have hi: "x / u \<le> of_int (2 ^ 53)"
    using xhi upos by (simp add: field_simps)
  have "2 ^ 52 \<le> round_even (x / u)"
    using round_even_mono [OF lo] by (simp only: round_even_of_int)
  then have a: "(2 ^ 52 :: rat) \<le> of_int (round_even (x / u))"
    by (metis of_int_le_iff of_int_numeral of_int_power)
  have "round_even (x / u) \<le> 2 ^ 53"
    using round_even_mono [OF hi] by (simp only: round_even_of_int)
  then have b: "of_int (round_even (x / u)) \<le> (2 ^ 53 :: rat)"
    by (metis of_int_le_iff of_int_numeral of_int_power)
  have "2 ^ 52 * u \<le> of_int (round_even (x / u)) * u"
    using a upos by (rule_tac mult_right_mono) simp_all
  moreover have "of_int (round_even (x / u)) * u \<le> 2 ^ 53 * u"
    using b upos by (rule_tac mult_right_mono) simp_all
  ultimately show ?thesis unfolding flx pk pk1 k_def [symmetric] by simp
qed

lemma fl_mono_pos:
  assumes "0 < x" "x \<le> y"
  shows "fl x \<le> fl y"
proof (cases "ilog2 x = ilog2 y")
  case True
  define u where "u = pow2 (ilog2 x - 52)"
  have upos: "0 < u" by (simp add: u_def pow2_pos)
  have "x / u \<le> y / u" using assms upos by (simp add: divide_right_mono)
  then have "round_even (x / u) \<le> round_even (y / u)" by (rule round_even_mono)
  then have "(of_int (round_even (x / u)) :: rat) * u \<le> of_int (round_even (y / u)) * u"
    using upos by (simp add: mult_right_mono)
  then show ?thesis using assms True by (simp add: fl_def Let_def u_def)
next
  case False
  with ilog2_mono [OF assms] have "ilog2 x + 1 \<le> ilog2 y" by simp
  then have "pow2 (ilog2 x + 1) \<le> pow2 (ilog2 y)" by (rule pow2_mono)
  moreover have "fl x \<le> pow2 (ilog2 x + 1)" using fl_pos_bounds [of x] assms by simp
  moreover have "pow2 (ilog2 y) \<le> fl y" using fl_pos_bounds [of y] assms by simp
  ultimately show ?thesis by linarith
qed

lemma fl_neg: "fl (- x) = - fl x"
  by (simp add: fl_def Let_def sgn_minus)

lemma fl_nonneg: "0 \<le> x \<Longrightarrow> 0 \<le> fl x"
  using fl_pos_bounds [of x] pow2_pos [of "ilog2 x"] by (cases "x = 0") (auto simp add: fl_def)

lemma fl_mono:
  assumes "x \<le> y"
  shows "fl x \<le> fl y"
proof -
  consider "0 < x" | "x \<le> 0" "0 \<le> y" | "y < 0" by linarith
  then show ?thesis
  proof cases
    case 1
    then show ?thesis using assms by (rule fl_mono_pos)
  next
    case 2
    have "fl x \<le> 0" using fl_nonneg [of "- x"] 2(1) by (simp add: fl_neg)
    moreover have "0 \<le> fl y" using 2(2) by (rule fl_nonneg)
    ultimately show ?thesis by linarith
  next
    case 3
    have "fl (- y) \<le> fl (- x)" using 3 assms by (intro fl_mono_pos) simp_all
    then show ?thesis by (simp add: fl_neg)
  qed
qed

subsection \<open>Evaluating the model on numerals and literals\<close>

lemma floor_rat_numeral [simp]:
  "\<lfloor>(numeral a :: rat) / numeral b\<rfloor> = numeral a div numeral b"
  using floor_divide_of_int_eq [of "numeral a" "numeral b", where ?'a = rat] by simp

lemma floor_rat_neg_numeral [simp]:
  "\<lfloor>- ((numeral a :: rat) / numeral b)\<rfloor> = - numeral a div numeral b"
  using floor_divide_of_int_eq [of "- numeral a" "numeral b", where ?'a = rat] by simp

lemmas num_eval =
  fl_def ilog2_def log2_down.simps log2_up.simps pow2_def round_even_def Let_def
  signed_infinity_def

lemmas str_eval =
  toLowerCase_def lower_char_def js_includes_def sublist_code show_nat.simps digit_char_def

lemmas scorer_eval =
  calculateBasicMatchScore_def finish_def roleStep_def locationStep_def salaryStep_def
  experienceStep_def skillsStep_def matchingSkills_def initial_def Let_def num_of_int_def
  num_of_nat_def

lemma fl_1: "fl 1 = 1"
  by (simp add: num_eval)

lemma fl_100: "fl 100 = 100"
  by (simp add: num_eval)

section \<open>Properties of the deterministic scorer\<close>

lemma skillsStep_details:
  "experienceMatch (details (skillsStep profile job r)) = experienceMatch (details r)"
  "salaryMatch (details (skillsStep profile job r)) = salaryMatch (details r)"
  by (simp_all add: skillsStep_def Let_def)

lemma experienceStep_details:
  "salaryMatch (details (experienceStep profile job r)) = salaryMatch (details r)"
  by (simp add: experienceStep_def Let_def split: option.splits)

lemma salaryStep_details:
  "experienceMatch (details (salaryStep profile job r)) = experienceMatch (details r)"
  by (simp add: salaryStep_def Let_def split: option.splits)

lemma locationStep_details:
  "experienceMatch (details (locationStep profile job r)) = experienceMatch (details r)"
  "salaryMatch (details (locationStep profile job r)) = salaryMatch (details r)"
  by (simp_all add: locationStep_def Let_def split: option.splits)

lemma roleStep_details:
  "experienceMatch (details (roleStep profile job r)) = experienceMatch (details r)"
  "salaryMatch (details (roleStep profile job r)) = salaryMatch (details r)"
  by (simp_all add: roleStep_def Let_def)

lemmas step_details =
  skillsStep_details experienceStep_details salaryStep_details locationStep_details
  roleStep_details

text \<open>The salary sub-score of the result is the one the salary block computes.\<close>

lemma salaryMatch_value:
  "salaryMatch (details (calculateBasicMatchScore profile job)) =
     (case (salaryMin profile, salaryMax job) of
        (Some lo, Some hi) \<Rightarrow>
          if lo \<noteq> 0 \<and> hi \<noteq> 0 then
            (if lo \<le> hi then Fin 100
             else Math_round (js_mul (js_div (num_of_int hi) (num_of_int lo)) (Fin 100)))
          else Fin 0
      | _ \<Rightarrow> Fin 0)"
  by (simp add: calculateBasicMatchScore_def finish_def step_details salaryStep_def initial_def
      Let_def split: option.splits)

lemma experienceMatch_value:
  "experienceMatch (details (calculateBasicMatchScore profile job)) =
     (case (experienceYears profile, experienceLevel job) of
        (Some years, Some level) \<Rightarrow>
          if years \<noteq> 0 then
            (if expMap level \<le> years then Fin 100
             else Math_round (js_mul (js_div (num_of_int years) (num_of_int (expMap level)))
                    (Fin 100)))
          else Fin 0
      | _ \<Rightarrow> Fin 0)"
  by (simp add: calculateBasicMatchScore_def finish_def step_details experienceStep_def
      initial_def Let_def split: option.splits)

lemma ratio_round_le_100:
  assumes "0 < lo" "hi < lo"
  shows "\<exists>v. Math_round (js_mul (js_div (num_of_int hi) (num_of_int lo)) (Fin 100)) = Fin v \<and>
    v \<le> 100"
proof -
  define q where "q = fl (of_int hi / of_int lo)"
  have "(of_int hi :: rat) / of_int lo \<le> 1" using assms by simp
  then have "q \<le> fl 1" unfolding q_def by (rule fl_mono)
  then have "q \<le> 1" by (simp add: fl_1)
  then have "q * 100 \<le> 100" by simp
  then have "fl (q * 100) \<le> fl 100" by (rule fl_mono)
  then have le: "fl (q * 100) \<le> 100" by (simp add: fl_100)
  have "\<lfloor>fl (q * 100) + 1 / 2\<rfloor> \<le> 100"
    using le by (simp add: floor_le_iff)
  then have "(of_int \<lfloor>fl (q * 100) + 1 / 2\<rfloor> :: rat) \<le> 100"
    by (metis of_int_le_iff of_int_numeral)
  moreover have "Math_round (js_mul (js_div (num_of_int hi) (num_of_int lo)) (Fin 100)) =
      Fin (of_int \<lfloor>fl (q * 100) + 1 / 2\<rfloor>)"
    using assms by (simp add: num_of_int_def q_def)
  ultimately show ?thesis by simp
qed

subsection \<open>The example scenario\<close>

text \<open>
  C6. For the example input (profile with skills JavaScript and React, 4 years of
  experience, minimum salary 80000, location Remote, preferred role Frontend Engineer;
  job requiring React and TypeScript, level mid, maximum salary 90000, remote, titled
  Frontend Engineer, at a location that neither contains nor is contained in "remote"
  when case is ignored) the sub-scores are 50, 100, 100, 80 and 100, and the final score
  is 78. The fields of the profile and of the job that the claim does not fix are
  arbitrary.
\<close>

theorem example_scores:
  assumes "skills profile = [''JavaScript'', ''React'']"
    and "experienceYears profile = Some 4"
    and "salaryMin profile = Some 80000"
    and "UserProfile.location profile = Some ''Remote''"
    and "preferredRoles profile = [''Frontend Engineer'']"
    and "skillsRequired job = [''React'', ''TypeScript'']"
    and "experienceLevel job = Some MID"
    and "salaryMax job = Some 90000"
    and "locationType job = Some REMOTE"
    and "title job = ''Frontend Engineer''"
    and "Job.location job = Some jl"
    and "\<not> js_includes (toLowerCase jl) ''remote''"
    and "\<not> js_includes ''remote'' (toLowerCase jl)"
  shows "details (calculateBasicMatchScore profile job) =
           \<lparr>skillsMatch = Fin 50, experienceMatch = Fin 100, salaryMatch = Fin 100,
            locationMatch = Fin 80, overallFit = Fin 100\<rparr> \<and>
         score (calculateBasicMatchScore profile job) = Fin 78"
proof -
  have jl: "jl \<noteq> []" using assms(13) by (auto simp add: js_includes_def toLowerCase_def)
  have ne: "''remote'' \<noteq> toLowerCase jl" using assms(12) by (auto simp add: js_includes_def)
  have low: "toLowerCase ''Remote'' = ''remote''" by (simp add: str_eval)
  have sk: "matchingSkills profile job = [''React'']"
    using assms(1,6) by (simp add: matchingSkills_def str_eval)
  have ro: "js_includes (toLowerCase ''Frontend Engineer'') (toLowerCase ''Frontend Engineer'')"
    by (simp add: js_includes_def)
  have "calculateBasicMatchScore profile job =
      \<lparr>score = Fin 78,
       reasons = [''Matches 1 required skills'', ''Experience level matches requirements'',
         ''Salary expectations align'', ''Remote position available'',
         ''Job title matches preferred roles''],
       details = \<lparr>skillsMatch = Fin 50, experienceMatch = Fin 100, salaryMatch = Fin 100,
         locationMatch = Fin 80, overallFit = Fin 100\<rparr>\<rparr>"
    apply (simp add: calculateBasicMatchScore_def finish_def roleStep_def locationStep_def
        salaryStep_def experienceStep_def skillsStep_def initial_def Let_def num_of_int_def
        num_of_nat_def assms(1-11) sk ro low jl ne assms(12,13) show_nat.simps digit_char_def)
    apply (simp add: num_eval)
    done
  then show ?thesis by simp
qed

theorem example_scores_witness:
  "details (calculateBasicMatchScore profile_example job_example) =
     \<lparr>skillsMatch = Fin 50, experienceMatch = Fin 100, salaryMatch = Fin 100,
      locationMatch = Fin 80, overallFit = Fin 100\<rparr> \<and>
   score (calculateBasicMatchScore profile_example job_example) = Fin 78"
proof -
  have a: "\<not> js_includes (toLowerCase ''Berlin'') ''remote''" by (simp add: str_eval)
  have b: "\<not> js_includes ''remote'' (toLowerCase ''Berlin'')" by (simp add: str_eval)
  show ?thesis
    using a b
    by (intro example_scores [where jl = "''Berlin''"])
      (simp_all add: profile_example_def job_example_def)
qed

subsection \<open>The range of the final score\<close>

text \<open>
  C1 claims that the final score is an integer between 0 and 100 for every profile and
  job. The skills block counts the skills of the profile that match some required skill
  and divides by the number of required skills, so the ratio exceeds 1 when several
  skills of the profile match the same requirement: here two of three skills match the
  single requirement, the skills sub-score is 200 and the final score is 140.
\<close>

theorem overlapping_skills_score_140:
  "calculateBasicMatchScore profile_overlap job_overlap =
     \<lparr>score = Fin 140,
      reasons = [''Matches 2 required skills'', ''Experience level matches requirements'',
        ''Salary expectations align'', ''Location matches preference'',
        ''Job title matches preferred roles''],
      details = \<lparr>skillsMatch = Fin 200, experienceMatch = Fin 100, salaryMatch = Fin 100,
        locationMatch = Fin 100, overallFit = Fin 100\<rparr>\<rparr>"
  apply (simp add: profile_overlap_def job_overlap_def scorer_eval str_eval)
  apply (simp add: num_eval)
  done

subsection \<open>The salary sub-score\<close>

lemma negative_salary_eval:
  "salaryMatch (details (calculateBasicMatchScore (profile_example\<lparr>salaryMin := Some (- 1)\<rparr>)
      (job_example\<lparr>salaryMax := Some (- 2)\<rparr>))) = Fin 200"
  apply (simp add: salaryMatch_value profile_example_def job_example_def num_of_int_def)
  apply (simp add: num_eval)
  done

text \<open>
  C7 claims that the salary sub-score exceeds 100 for some profile and job, namely when
  the maximum salary of the job greatly exceeds the minimum of the profile. There the
  sub-score is exactly 100: a profile minimum of 50000 against a job maximum of 500000.
\<close>

theorem salaryMatch_large_job_salary_counterexample:
  "salaryMatch (details (calculateBasicMatchScore (profile_example\<lparr>salaryMin := Some 50000\<rparr>)
      (job_example\<lparr>salaryMax := Some 500000\<rparr>))) = Fin 100"
  by (simp add: salaryMatch_value profile_example_def job_example_def)

text \<open>
  C7, amended. The rounded ratio is not clamped, but it is computed only when the
  maximum salary of the job lies below the minimum of the profile. When both salaries
  are present and not zero and the maximum of the job is at least the minimum of the
  profile, the salary sub-score is exactly 100. It exceeds 100 only when the minimum of
  the profile is negative and the maximum of the job lies below it (a minimum of -1 and
  a maximum of -2 give 200); for a profile whose minimum is not negative it never
  exceeds 100.
\<close>

theorem salaryMatch_exceeds_100_only_negative:
  "(\<forall>lo hi. salaryMin profile = Some lo \<and> salaryMax job = Some hi \<and> lo \<noteq> 0 \<and> hi \<noteq> 0 \<and>
      lo \<le> hi \<longrightarrow>
      salaryMatch (details (calculateBasicMatchScore profile job)) = Fin 100) \<and>
   (\<forall>v. salaryMatch (details (calculateBasicMatchScore profile job)) = Fin v \<and> 100 < v \<longrightarrow>
      (\<exists>lo hi. salaryMin profile = Some lo \<and> salaryMax job = Some hi \<and> hi < lo \<and> lo < 0))"
proof (intro conjI allI impI)
  fix lo hi
  assume "salaryMin profile = Some lo \<and> salaryMax job = Some hi \<and> lo \<noteq> 0 \<and> hi \<noteq> 0 \<and> lo \<le> hi"
  then show "salaryMatch (details (calculateBasicMatchScore profile job)) = Fin 100"
    by (simp add: salaryMatch_value)
next
  fix v
  assume a: "salaryMatch (details (calculateBasicMatchScore profile job)) = Fin v \<and> 100 < v"
  then have v: "salaryMatch (details (calculateBasicMatchScore profile job)) = Fin v"
    and big: "100 < v" by simp_all
  show "\<exists>lo hi. salaryMin profile = Some lo \<and> salaryMax job = Some hi \<and> hi < lo \<and> lo < 0"
  proof (cases "salaryMin profile")
    case None
    with v big show ?thesis by (simp add: salaryMatch_value)
  next
    case lo: (Some lo)
    show ?thesis
    proof (cases "salaryMax job")
      case None
      with lo v big show ?thesis by (simp add: salaryMatch_value)
    next
      case hi: (Some hi)
      have eq: "(if lo \<noteq> 0 \<and> hi \<noteq> 0 then
                 (if lo \<le> hi then Fin 100
                  else Math_round (js_mul (js_div (num_of_int hi) (num_of_int lo)) (Fin 100)))
                else Fin 0) = Fin v"
        using v lo hi by (simp add: salaryMatch_value)
      have nz: "lo \<noteq> 0 \<and> hi \<noteq> 0"
      proof (rule ccontr)
        assume "\<not> (lo \<noteq> 0 \<and> hi \<noteq> 0)"
        with eq have "v = 0" by auto
        with big show False by simp
      qed
      have lt: "hi < lo"
      proof (rule ccontr)
        assume "\<not> hi < lo"
        with eq nz have "v = 100" by auto
        with big show False by simp
      qed
      have "lo < 0"
      proof (rule ccontr)
        assume "\<not> lo < 0"
        with nz have "0 < lo" by simp
        from ratio_round_le_100 [OF this lt] obtain w
          where "Math_round (js_mul (js_div (num_of_int hi) (num_of_int lo)) (Fin 100)) = Fin w"
            and "w \<le> 100" by blast
        with eq nz lt have "v \<le> 100" by auto
        with big show False by simp
      qed
      with lo hi lt show ?thesis by simp
    qed
  qed
qed

theorem salaryMatch_exceeds_100_only_negative_witness:
  "salaryMatch (details (calculateBasicMatchScore profile_example job_example)) = Fin 100 \<and>
   salaryMatch (details (calculateBasicMatchScore (profile_example\<lparr>salaryMin := Some (- 1)\<rparr>)
      (job_example\<lparr>salaryMax := Some (- 2)\<rparr>))) = Fin 200 \<and>
   (\<exists>lo hi. salaryMin (profile_example\<lparr>salaryMin := Some (- 1)\<rparr>) = Some lo \<and>
      salaryMax (job_example\<lparr>salaryMax := Some (- 2)\<rparr>) = Some hi \<and> hi < lo \<and> lo < 0)"
proof -
  have a: "salaryMin profile_example = Some 80000 \<and> salaryMax job_example = Some 90000 \<and>
      (80000 :: int) \<noteq> 0 \<and> (90000 :: int) \<noteq> 0 \<and> (80000 :: int) \<le> 90000"
    by (simp add: profile_example_def job_example_def)
  have "salaryMatch (details (calculateBasicMatchScore profile_example job_example)) = Fin 100"
    using salaryMatch_exceeds_100_only_negative [of profile_example job_example] a by blast
  moreover have "\<exists>lo hi. salaryMin (profile_example\<lparr>salaryMin := Some (- 1)\<rparr>) = Some lo \<and>
      salaryMax (job_example\<lparr>salaryMax := Some (- 2)\<rparr>) = Some hi \<and> hi < lo \<and> lo < 0"
  proof -
    have "salaryMatch (details (calculateBasicMatchScore
        (profile_example\<lparr>salaryMin := Some (- 1)\<rparr>)
        (job_example\<lparr>salaryMax := Some (- 2)\<rparr>))) = Fin 200 \<and> (100 :: rat) < 200"
      using negative_salary_eval by simp
    with salaryMatch_exceeds_100_only_negative [of "profile_example\<lparr>salaryMin := Some (- 1)\<rparr>"
        "job_example\<lparr>salaryMax := Some (- 2)\<rparr>"]
    show ?thesis by blast
  qed
  ultimately show ?thesis using negative_salary_eval by blast
qed

subsection \<open>Entry-level jobs\<close>

lemma entry_level_positive_years:
  assumes "experienceYears profile = Some years" and "0 < years"
    and "experienceLevel job = Some ENTRY"
  shows "experienceMatch (details (calculateBasicMatchScore profile job)) = Fin 100"
  using assms by (simp add: experienceMatch_value)

text \<open>
  C8 claims an experience sub-score of 100 for every profile, zero years of experience
  included, when the job is entry level. The guard of the experience block reads
  \<^verbatim>\<open>profile.experienceYears && job.experienceLevel\<close>, and 0 is falsy: with zero years
  the block is skipped and the sub-score stays 0.
\<close>

theorem entry_level_zero_years_scores_0:
  "experienceMatch (details (calculateBasicMatchScore
      (profile_example\<lparr>experienceYears := Some 0\<rparr>)
      (job_example\<lparr>experienceLevel := Some ENTRY\<rparr>))) = Fin 0"
  by (simp add: experienceMatch_value profile_example_def job_example_def)

section \<open>Properties of the AI strategy's fallback\<close>

text \<open>
  C2 claims that every failure of the AI strategy, a parsed response that misses a field
  included, makes \<open>calculateMatchScore\<close> return the result of the deterministic scorer.
  A response that parses to the empty object is no failure for the code: the object built
  from it is returned, with \<^verbatim>\<open>Math.round(undefined)\<close>, that is \<open>NaN\<close>, as its score, the
  empty list of reasons and 0 for every detail.
\<close>

theorem missing_fields_counterexample:
  "calculateMatchScore (Content (Some ''{}'')) parse_example coerce_example
     profile_example job_example =
   FromAI \<lparr>score = NaN, reasons = JArr [],
     details = \<lparr>skillsMatch = JNum (Fin 0), experienceMatch = JNum (Fin 0),
       salaryMatch = JNum (Fin 0), locationMatch = JNum (Fin 0), overallFit = JNum (Fin 0)\<rparr>\<rparr> \<and>
   calculateMatchScore (Content (Some ''{}'')) parse_example coerce_example
     profile_example job_example \<noteq> Fallback (calculateBasicMatchScore profile_example job_example)"
  by (simp add: calculateMatchScore_def tryAI_def fromParsed_def parse_example_def js_or_def)

text \<open>
  C2, amended. When the request or the access to its content raises, when the content
  is null, undefined or the empty string, when \<^verbatim>\<open>JSON.parse\<close> raises, or when the parsed
  value is null, \<open>calculateMatchScore\<close> returns the result of
  \<open>calculateBasicMatchScore\<close>. A parsed object with a number as its score and without
  reasons and details is no failure: the result of the AI strategy is returned, with the
  rounded score, the empty list of reasons and 0 for every detail.
  \<open>calculateMatchScore\<close> is a total function: no error reaches the caller.
\<close>

theorem ai_failure_falls_back:
  "(response = Raised \<or> response = Content None \<or> response = Content (Some [])
      \<or> (\<exists>content. response = Content (Some content) \<and>
           (JSON_parse content = None \<or> JSON_parse content = Some JNull)) \<longrightarrow>
    calculateMatchScore response JSON_parse coerce profile job =
      Fallback (calculateBasicMatchScore profile job)) \<and>
   (\<forall>content kvs n. response = Content (Some content) \<and> content \<noteq> [] \<and>
      JSON_parse content = Some (JObj kvs) \<and> map_of kvs ''score'' = Some (JNum n) \<and>
      map_of kvs ''reasons'' = None \<and> map_of kvs ''details'' = None \<longrightarrow>
      calculateMatchScore response JSON_parse coerce profile job =
         FromAI \<lparr>score = Math_round n, reasons = JArr [],
           details = \<lparr>skillsMatch = JNum (Fin 0), experienceMatch = JNum (Fin 0),
             salaryMatch = JNum (Fin 0), locationMatch = JNum (Fin 0),
             overallFit = JNum (Fin 0)\<rparr>\<rparr>)"
proof (intro conjI allI impI)
  assume "response = Raised \<or> response = Content None \<or> response = Content (Some [])
      \<or> (\<exists>content. response = Content (Some content) \<and>
           (JSON_parse content = None \<or> JSON_parse content = Some JNull))"
  then show "calculateMatchScore response JSON_parse coerce profile job =
      Fallback (calculateBasicMatchScore profile job)"
    by (auto simp add: calculateMatchScore_def tryAI_def fromParsed_def split: option.splits)
next
  fix content kvs n
  assume "response = Content (Some content) \<and> content \<noteq> [] \<and>
      JSON_parse content = Some (JObj kvs) \<and> map_of kvs ''score'' = Some (JNum n) \<and>
      map_of kvs ''reasons'' = None \<and> map_of kvs ''details'' = None"
  then show "calculateMatchScore response JSON_parse coerce profile job =
         FromAI \<lparr>score = Math_round n, reasons = JArr [],
           details = \<lparr>skillsMatch = JNum (Fin 0), experienceMatch = JNum (Fin 0),
             salaryMatch = JNum (Fin 0), locationMatch = JNum (Fin 0),
             overallFit = JNum (Fin 0)\<rparr>\<rparr>"
    by (simp add: calculateMatchScore_def tryAI_def fromParsed_def js_or_def)
qed

theorem ai_failure_falls_back_witness:
  "calculateMatchScore (Content (Some ''not json'')) parse_example coerce_example
     profile_example job_example = Fallback (calculateBasicMatchScore profile_example job_example) \<and>
   calculateMatchScore (Content (Some ''score 85'')) parse_example coerce_example
      profile_example job_example =
        FromAI \<lparr>score = Fin 85, reasons = JArr [],
           details = \<lparr>skillsMatch = JNum (Fin 0), experienceMatch = JNum (Fin 0),
             salaryMatch = JNum (Fin 0), locationMatch = JNum (Fin 0),
             overallFit = JNum (Fin 0)\<rparr>\<rparr>"
proof -
  have a: "parse_example ''not json'' = None" by (simp add: parse_example_def)
  have b: "Content (Some ''score 85'') = Content (Some ''score 85'') \<and> ''score 85'' \<noteq> [] \<and>
      parse_example ''score 85'' = Some (JObj [(''score'', JNum (Fin 85))]) \<and>
      map_of [(''score'', JNum (Fin 85))] ''score'' = Some (JNum (Fin 85)) \<and>
      map_of [(''score'', JNum (Fin 85))] ''reasons'' = None \<and>
      map_of [(''score'', JNum (Fin 85))] ''details'' = None"
    by (simp add: parse_example_def)
  have "calculateMatchScore (Content (Some ''not json'')) parse_example coerce_example
     profile_example job_example = Fallback (calculateBasicMatchScore profile_example job_example)"
    using ai_failure_falls_back [of "Content (Some ''not json'')" parse_example coerce_example
        profile_example job_example] a by blast
  moreover have "calculateMatchScore (Content (Some ''score 85'')) parse_example coerce_example
      profile_example job_example =
        FromAI \<lparr>score = Math_round (Fin 85), reasons = JArr [],
           details = \<lparr>skillsMatch = JNum (Fin 0), experienceMatch = JNum (Fin 0),
             salaryMatch = JNum (Fin 0), locationMatch = JNum (Fin 0),
             overallFit = JNum (Fin 0)\<rparr>\<rparr>"
    using ai_failure_falls_back [of "Content (Some ''score 85'')" parse_example coerce_example
        profile_example job_example] b by blast
  ultimately show ?thesis by simp
qed

section \<open>Properties of the match cache\<close>

lemma find_map_update:
  assumes "find P xs = Some e" "\<And>m. P (f m) = P m"
  shows "find P (map (\<lambda>m. if P m then f m else m) xs) = Some (f e)"
  using assms by (induction xs) (auto split: if_splits)

lemma find_append_new:
  "find P xs = None \<Longrightarrow> P y \<Longrightarrow> find P (xs @ [y]) = Some y"
  by (induction xs) (auto split: if_splits)

lemma cache_findUnique_update:
  assumes "cache_findUnique uid jid db = Some e"
    and "\<And>m. JobMatchCache.userId (f m) = JobMatchCache.userId m"
    and "\<And>m. JobMatchCache.jobId (f m) = JobMatchCache.jobId m"
  shows "cache_findUnique uid jid (cache_update uid jid f db) = Some (f e)"
  using assms
  by (simp add: cache_findUnique_def cache_update_def find_map_update)

lemma cache_update_other_tables:
  "jobs (cache_update uid jid f db) = jobs db"
  "applications (cache_update uid jid f db) = applications db"
  "userPreferences (cache_update uid jid f db) = userPreferences db"
  by (simp_all add: cache_update_def)

lemma toggleFavorite_new:
  assumes "jobs db jid = Some job" and "cache_findUnique uid jid db = None"
  shows "toggleFavorite (Some uid) jid now db =
    (db\<lparr>jobMatchCache := jobMatchCache db @
        [\<lparr>JobMatchCache.userId = uid, JobMatchCache.jobId = jid,
          JobMatchCache.matchScore = 0, matchDetails = None,
          isFavorite = True, isHidden = False, calculatedAt = now\<rparr>]\<rparr>, Inr True)"
  using assms by (simp add: toggleFavorite_def cache_create_def)

lemma toggleFavorite_existing:
  assumes "jobs db jid = Some job" and "cache_findUnique uid jid db = Some e"
  shows "toggleFavorite (Some uid) jid now db =
    (cache_update uid jid (\<lambda>m. m\<lparr>isFavorite := \<not> isFavorite e\<rparr>) db, Inr (\<not> isFavorite e))"
  using assms by (simp add: toggleFavorite_def)

text \<open>
  C9. For a user and an existing job with no entry in the match cache, two calls of
  \<open>toggleFavorite\<close> in sequence leave an entry that is not a favourite and has score 0:
  the first call creates the entry with score 0 and \<open>isFavorite = True\<close> and answers
  \<open>True\<close>; the second negates the flag, changes nothing else and answers \<open>False\<close>.
\<close>

theorem toggleFavorite_twice:
  assumes "jobs db jid = Some job" and "cache_findUnique uid jid db = None"
  shows "\<exists>db1 db2 e1 e2.
      toggleFavorite (Some uid) jid now1 db = (db1, Inr True) \<and>
      cache_findUnique uid jid db1 = Some e1 \<and>
      isFavorite e1 \<and> JobMatchCache.matchScore e1 = 0 \<and>
      toggleFavorite (Some uid) jid now2 db1 = (db2, Inr False) \<and>
      cache_findUnique uid jid db2 = Some e2 \<and>
      \<not> isFavorite e2 \<and> JobMatchCache.matchScore e2 = 0 \<and>
      e2 = e1\<lparr>isFavorite := False\<rparr>"
proof -
  define e1 where "e1 = \<lparr>JobMatchCache.userId = uid, JobMatchCache.jobId = jid,
    JobMatchCache.matchScore = 0, matchDetails = None,
    isFavorite = True, isHidden = False, calculatedAt = now1\<rparr>"
  define db1 where "db1 = db\<lparr>jobMatchCache := jobMatchCache db @ [e1]\<rparr>"
  have t1: "toggleFavorite (Some uid) jid now1 db = (db1, Inr True)"
    using toggleFavorite_new [OF assms] by (simp add: db1_def e1_def)
  have f1: "cache_findUnique uid jid db1 = Some e1"
    using assms(2) by (simp add: cache_findUnique_def db1_def find_append_new e1_def)
  have j1: "jobs db1 jid = Some job" using assms(1) by (simp add: db1_def)
  define db2 where "db2 = cache_update uid jid (\<lambda>m. m\<lparr>isFavorite := \<not> isFavorite e1\<rparr>) db1"
  have t2: "toggleFavorite (Some uid) jid now2 db1 = (db2, Inr False)"
    using toggleFavorite_existing [OF j1 f1] by (simp add: db2_def e1_def)
  have f2: "cache_findUnique uid jid db2 = Some (e1\<lparr>isFavorite := \<not> isFavorite e1\<rparr>)"
    unfolding db2_def by (rule cache_findUnique_update [OF f1]) simp_all
  show ?thesis
    using t1 f1 t2 f2 by (simp add: e1_def)
qed

theorem toggleFavorite_twice_witness:
  "jobs db_example ''job-4'' = Some job_overlap \<and>
   cache_findUnique ''user-1'' ''job-4'' db_example = None \<and>
   (\<exists>db1 db2 e1 e2.
      toggleFavorite (Some ''user-1'') ''job-4'' 2000 db_example = (db1, Inr True) \<and>
      cache_findUnique ''user-1'' ''job-4'' db1 = Some e1 \<and>
      isFavorite e1 \<and> JobMatchCache.matchScore e1 = 0 \<and>
      toggleFavorite (Some ''user-1'') ''job-4'' 3000 db1 = (db2, Inr False) \<and>
      cache_findUnique ''user-1'' ''job-4'' db2 = Some e2 \<and>
      \<not> isFavorite e2 \<and> JobMatchCache.matchScore e2 = 0 \<and>
      e2 = e1\<lparr>isFavorite := False\<rparr>)"
proof -
  have a: "jobs db_example ''job-4'' = Some job_overlap" by (simp add: db_example_def)
  have b: "cache_findUnique ''user-1'' ''job-4'' db_example = None"
    by (simp add: db_example_def cache_findUnique_def)
  from toggleFavorite_twice [OF a b] a b show ?thesis by simp
qed

lemma hideJob_existing:
  assumes "jobs db jid = Some job" and "cache_findUnique uid jid db = Some e"
  shows "hideJob (Some uid) jid now db =
    (cache_update uid jid (\<lambda>m. m\<lparr>isHidden := True\<rparr>) db, Inr ())"
  using assms by (simp add: hideJob_def)

lemma hideJob_new:
  assumes "jobs db jid = Some job" and "cache_findUnique uid jid db = None"
  shows "hideJob (Some uid) jid now db =
    (db\<lparr>jobMatchCache := jobMatchCache db @
        [\<lparr>JobMatchCache.userId = uid, JobMatchCache.jobId = jid,
          JobMatchCache.matchScore = 0, matchDetails = None,
          isFavorite = False, isHidden = True, calculatedAt = now\<rparr>]\<rparr>, Inr ())"
  using assms by (simp add: hideJob_def cache_create_def)

lemma cache_update_hide_twice:
  "cache_update uid jid (\<lambda>m. m\<lparr>isHidden := True\<rparr>)
     (cache_update uid jid (\<lambda>m. m\<lparr>isHidden := True\<rparr>) db) =
   cache_update uid jid (\<lambda>m. m\<lparr>isHidden := True\<rparr>) db"
  by (simp add: cache_update_def comp_def cong: map_cong)

lemma cache_update_rows:
  "jobMatchCache (cache_update uid jid f db) =
     map (\<lambda>m. if JobMatchCache.userId m = uid \<and> JobMatchCache.jobId m = jid then f m else m)
       (jobMatchCache db)"
  by (simp add: cache_update_def)

text \<open>
  C10. For a user and an existing job whose cache entry exists, \<open>hideJob\<close> sets
  \<open>isHidden\<close> of that entry and nothing else: the entry found afterwards is the old one
  with \<open>isHidden = True\<close> (score, favourite flag, details and time stamp as before), the
  rows of other keys and the other tables are as before, and a second call leaves the
  database as the first one left it.
\<close>

theorem hideJob_sets_only_isHidden:
  assumes "jobs db jid = Some job" and "cache_findUnique uid jid db = Some e"
  shows "\<exists>db1.
      hideJob (Some uid) jid now db = (db1, Inr ()) \<and>
      cache_findUnique uid jid db1 = Some (e\<lparr>isHidden := True\<rparr>) \<and>
      jobMatchCache db1 =
        map (\<lambda>m. if JobMatchCache.userId m = uid \<and> JobMatchCache.jobId m = jid
                  then m\<lparr>isHidden := True\<rparr> else m) (jobMatchCache db) \<and>
      jobs db1 = jobs db \<and> applications db1 = applications db \<and>
      userPreferences db1 = userPreferences db \<and>
      hideJob (Some uid) jid now' db1 = (db1, Inr ())"
proof -
  define db1 where "db1 = cache_update uid jid (\<lambda>m. m\<lparr>isHidden := True\<rparr>) db"
  have h1: "hideJob (Some uid) jid now db = (db1, Inr ())"
    using hideJob_existing [OF assms] by (simp add: db1_def)
  have f1: "cache_findUnique uid jid db1 = Some (e\<lparr>isHidden := True\<rparr>)"
    unfolding db1_def by (rule cache_findUnique_update [OF assms(2)]) simp_all
  have j1: "jobs db1 jid = Some job" using assms(1) by (simp add: db1_def cache_update_other_tables)
  have h2: "hideJob (Some uid) jid now' db1 = (db1, Inr ())"
    using hideJob_existing [OF j1 f1] by (simp add: db1_def cache_update_hide_twice)
  show ?thesis
    using h1 f1 h2 by (simp add: db1_def cache_update_other_tables cache_update_rows)
qed

theorem hideJob_sets_only_isHidden_witness:
  "jobs db_example ''job-1'' = Some job_example \<and>
   cache_findUnique ''user-1'' ''job-1'' db_example =
     Some \<lparr>JobMatchCache.userId = ''user-1'', JobMatchCache.jobId = ''job-1'',
          JobMatchCache.matchScore = 78, matchDetails = None, isFavorite = True,
          isHidden = False, calculatedAt = 500\<rparr> \<and>
   (\<exists>db1.
      hideJob (Some ''user-1'') ''job-1'' 2000 db_example = (db1, Inr ()) \<and>
      cache_findUnique ''user-1'' ''job-1'' db1 =
        Some \<lparr>JobMatchCache.userId = ''user-1'', JobMatchCache.jobId = ''job-1'',
          JobMatchCache.matchScore = 78, matchDetails = None, isFavorite = True,
          isHidden = True, calculatedAt = 500\<rparr> \<and>
      hideJob (Some ''user-1'') ''job-1'' 3000 db1 = (db1, Inr ()))"
proof -
  have a: "jobs db_example ''job-1'' = Some job_example" by (simp add: db_example_def)
  have b: "cache_findUnique ''user-1'' ''job-1'' db_example =
     Some \<lparr>JobMatchCache.userId = ''user-1'', JobMatchCache.jobId = ''job-1'',
          JobMatchCache.matchScore = 78, matchDetails = None, isFavorite = True,
          isHidden = False, calculatedAt = 500\<rparr>"
    by (simp add: db_example_def cache_findUnique_def)
  from hideJob_sets_only_isHidden [OF a b, of 2000 3000] a b show ?thesis by auto
qed

lemma hideJob_idempotent_new:
  assumes "jobs db jid = Some job" and "cache_findUnique uid jid db = None"
  shows "hideJob (Some uid) jid now' (fst (hideJob (Some uid) jid now db)) =
    (fst (hideJob (Some uid) jid now db), Inr ())"
proof -
  define e where "e = \<lparr>JobMatchCache.userId = uid, JobMatchCache.jobId = jid,
          JobMatchCache.matchScore = 0, matchDetails = None,
          isFavorite = False, isHidden = True, calculatedAt = now\<rparr>"
  define db1 where "db1 = db\<lparr>jobMatchCache := jobMatchCache db @ [e]\<rparr>"
  have h1: "fst (hideJob (Some uid) jid now db) = db1"
    using hideJob_new [OF assms] by (simp add: db1_def e_def)
  have f1: "cache_findUnique uid jid db1 = Some e"
    using assms(2) by (simp add: cache_findUnique_def db1_def find_append_new e_def)
  have j1: "jobs db1 jid = Some job" using assms(1) by (simp add: db1_def)
  have none: "\<forall>m \<in> set (jobMatchCache db). \<not> (JobMatchCache.userId m = uid \<and> JobMatchCache.jobId m = jid)"
    using assms(2) by (simp add: cache_findUnique_def find_None_iff)
  have "map (\<lambda>m. if JobMatchCache.userId m = uid \<and> JobMatchCache.jobId m = jid
      then m\<lparr>isHidden := True\<rparr> else m) (jobMatchCache db) = jobMatchCache db"
    using none by (intro map_idI) auto
  then have "cache_update uid jid (\<lambda>m. m\<lparr>isHidden := True\<rparr>) db1 = db1"
    by (simp add: cache_update_def db1_def e_def)
  with hideJob_existing [OF j1 f1] show ?thesis by (simp add: h1)
qed

section \<open>Properties of auto-apply\<close>

text \<open>
  C5. When the user has no preferences record, or the record has auto-apply disabled,
  \<open>autoApply\<close> fails with \<^verbatim>\<open>AUTO_APPLY_DISABLED\<close> whatever the match cache holds, and the
  database is unchanged.
\<close>

theorem autoApply_disabled:
  assumes "userPreferences db uid = None \<or>
    (\<exists>preferences. userPreferences db uid = Some preferences \<and> \<not> autoApplyEnabled preferences)"
  shows "autoApply objectKeys today now uid db = (db, Inl (ApiError 400 ''AUTO_APPLY_DISABLED''))"
  using assms by (auto simp add: autoApply_def)

theorem autoApply_disabled_witness:
  "autoApply (\<lambda>v. []) 0 2000 ''user-2'' db_example =
     (db_example, Inl (ApiError 400 ''AUTO_APPLY_DISABLED''))"
proof -
  have "userPreferences db_example ''user-2'' = None" by (simp add: db_example_def)
  then show ?thesis by (intro autoApply_disabled) simp
qed

subsection \<open>The loop and the selection\<close>

lemma newApplication_fields:
  "Application.userId (newApplication objectKeys now uid m) = uid"
  "Application.jobId (newApplication objectKeys now uid m) = JobMatchCache.jobId m"
  "isAutoApplied (newApplication objectKeys now uid m)"
  by (simp_all add: newApplication_def)

lemma application_create_Inr:
  assumes "application_create a db = Inr db1"
  shows "db1 = db\<lparr>applications := applications db @ [a]\<rparr>"
    and "\<not> (\<exists>b \<in> set (applications db).
            Application.userId b = Application.userId a \<and> Application.jobId b = Application.jobId a)"
  using assms by (auto simp add: application_create_def list_ex_iff split: if_splits)

lemma application_create_unique:
  assumes "application_create a db = Inr db1" and "unique_applications db"
  shows "unique_applications db1"
proof -
  have "(Application.userId a, Application.jobId a) \<notin>
      set (map (\<lambda>a. (Application.userId a, Application.jobId a)) (applications db))"
    using application_create_Inr(2) [OF assms(1)] by auto
  then show ?thesis
    using assms(2) application_create_Inr(1) [OF assms(1)] by (simp add: unique_applications_def)
qed

lemma job_increment_Inr:
  assumes "job_increment jid db = Inr db2"
  shows "applications db2 = applications db"
  using assms by (auto simp add: job_increment_def split: option.splits)

text \<open>
  The loop appends the rows of a prefix of its input, in order, and nothing else; it
  keeps the uniqueness of \<open>(userId, jobId)\<close>.
\<close>

lemma createApplications_appends:
  assumes "createApplications objectKeys now uid xs db acc = (db', r)"
  shows "\<exists>k \<le> length xs.
    applications db' =
      applications db @ map (\<lambda>mj. newApplication objectKeys now uid (fst mj)) (take k xs)"
  using assms
proof (induction xs arbitrary: db acc)
  case Nil
  then show ?case by simp
next
  case (Cons mj rest)
  define a where "a = newApplication objectKeys now uid (fst mj)"
  show ?case
  proof (cases "application_create a db")
    case (Inl e)
    with Cons.prems have "db' = db" by (simp add: a_def Let_def)
    then have "applications db' =
        applications db @ map (\<lambda>mj. newApplication objectKeys now uid (fst mj)) (take 0 (mj # rest))"
      by simp
    then show ?thesis by blast
  next
    case created: (Inr db1)
    have apps1: "applications db1 = applications db @ [a]"
      using application_create_Inr(1) [OF created] by simp
    show ?thesis
    proof (cases "job_increment (JobMatchCache.jobId (fst mj)) db1")
      case (Inl e)
      with Cons.prems created have "db' = db1" by (simp add: a_def Let_def)
      then have "applications db' =
          applications db @
            map (\<lambda>mj. newApplication objectKeys now uid (fst mj)) (take 1 (mj # rest))"
        by (simp add: apps1 a_def)
      moreover have "(1::nat) \<le> length (mj # rest)" by simp
      ultimately show ?thesis by blast
    next
      case incremented: (Inr db2)
      have apps2: "applications db2 = applications db @ [a]"
        using job_increment_Inr [OF incremented] apps1 by simp
      from Cons.prems created incremented
      have "createApplications objectKeys now uid rest db2 (acc @ [a]) = (db', r)"
        by (simp add: a_def Let_def)
      from Cons.IH [OF this] obtain k where k: "k \<le> length rest"
        and "applications db' =
          applications db2 @ map (\<lambda>mj. newApplication objectKeys now uid (fst mj)) (take k rest)"
        by blast
      then have "applications db' =
          applications db @
            map (\<lambda>mj. newApplication objectKeys now uid (fst mj)) (take (Suc k) (mj # rest))"
        by (simp add: apps2 a_def)
      moreover have "Suc k \<le> length (mj # rest)" using k by simp
      ultimately show ?thesis by blast
    qed
  qed
qed

lemma createApplications_unique:
  assumes "createApplications objectKeys now uid xs db acc = (db', r)"
    and "unique_applications db"
  shows "unique_applications db'"
  using assms
proof (induction xs arbitrary: db acc)
  case Nil
  then show ?case by simp
next
  case (Cons mj rest)
  define a where "a = newApplication objectKeys now uid (fst mj)"
  show ?case
  proof (cases "application_create a db")
    case (Inl e)
    with Cons.prems show ?thesis by (simp add: a_def Let_def)
  next
    case created: (Inr db1)
    have u1: "unique_applications db1"
      using application_create_unique [OF created Cons.prems(2)] .
    show ?thesis
    proof (cases "job_increment (JobMatchCache.jobId (fst mj)) db1")
      case (Inl e)
      with Cons.prems created u1 show ?thesis by (simp add: a_def Let_def)
    next
      case incremented: (Inr db2)
      have u2: "unique_applications db2"
        using u1 job_increment_Inr [OF incremented] by (simp add: unique_applications_def)
      from Cons.prems created incremented
      have "createApplications objectKeys now uid rest db2 (acc @ [a]) = (db', r)"
        by (simp add: a_def Let_def)
      from Cons.IH [OF this u2] show ?thesis .
    qed
  qed
qed

text \<open>No job that \<open>jobsToApply\<close> keeps has an application of the user.\<close>

lemma jobsToApply_not_applied:
  assumes "mj \<in> set (jobsToApply uid matchedJobs db)"
  shows "\<not> (\<exists>b \<in> set (applications db).
    Application.userId b = uid \<and> Application.jobId b = JobMatchCache.jobId (fst mj))"
proof
  assume "\<exists>b \<in> set (applications db).
    Application.userId b = uid \<and> Application.jobId b = JobMatchCache.jobId (fst mj)"
  then obtain b where b: "b \<in> set (applications db)" "Application.userId b = uid"
    "Application.jobId b = JobMatchCache.jobId (fst mj)" by blast
  have mj: "mj \<in> set matchedJobs"
    and notin: "JobMatchCache.jobId (fst mj) \<notin>
      Application.jobId ` {a \<in> set (applications db). Application.userId a = uid \<and>
        Application.jobId a \<in> (\<lambda>mj. JobMatchCache.jobId (fst mj)) ` set matchedJobs}"
    using assms by (simp_all add: jobsToApply_def Let_def)
  have "b \<in> {a \<in> set (applications db). Application.userId a = uid \<and>
        Application.jobId a \<in> (\<lambda>mj. JobMatchCache.jobId (fst mj)) ` set matchedJobs}"
    using b mj by auto
  then have "Application.jobId b \<in>
      Application.jobId ` {a \<in> set (applications db). Application.userId a = uid \<and>
        Application.jobId a \<in> (\<lambda>mj. JobMatchCache.jobId (fst mj)) ` set matchedJobs}"
    by (rule imageI)
  with notin b(3) show False by simp
qed

lemma jobsToApply_subseq: "subseq (jobsToApply uid matchedJobs db) matchedJobs"
  by (simp add: jobsToApply_def Let_def)

lemma includeJob_rows:
  "includeJob js ms = Some mjs \<Longrightarrow> map fst mjs = ms"
  by (induction ms arbitrary: mjs) (auto split: option.splits)

text \<open>
  What one call of \<open>autoApply\<close> does to the applications: it appends the rows of a
  prefix of \<open>jobsToApply\<close> of the matched rows, or nothing.
\<close>

lemma autoApply_appends:
  assumes "autoApply objectKeys today now uid db = (db', r)"
  shows "applications db' = applications db \<or>
    (\<exists>preferences matchedJobs k.
       userPreferences db uid = Some preferences \<and> autoApplyEnabled preferences \<and>
       int (dailyCount uid today db) < autoApplyMaxPerDay preferences \<and>
       map fst matchedJobs =
         findMatchedJobs uid (autoApplyThreshold preferences)
           (nat (autoApplyMaxPerDay preferences - int (dailyCount uid today db))) db \<and>
       applications db' =
         applications db @
           map (\<lambda>mj. newApplication objectKeys now uid (fst mj))
             (take k (jobsToApply uid matchedJobs db)))"
proof (cases "userPreferences db uid")
  case None
  with assms show ?thesis by (simp add: autoApply_def)
next
  case (Some preferences)
  show ?thesis
  proof (cases "autoApplyEnabled preferences \<and>
      int (dailyCount uid today db) < autoApplyMaxPerDay preferences")
    case False
    with assms Some show ?thesis by (auto simp add: autoApply_def split: if_splits)
  next
    case True
    define rows where "rows =
      findMatchedJobs uid (autoApplyThreshold preferences)
        (nat (autoApplyMaxPerDay preferences - int (dailyCount uid today db))) db"
    show ?thesis
    proof (cases "includeJob (jobs db) rows")
      case None
      with assms Some True show ?thesis by (simp add: autoApply_def rows_def)
    next
      case matched: (Some matchedJobs)
      obtain db2 r2 where loop:
        "createApplications objectKeys now uid (jobsToApply uid matchedJobs db) db [] = (db2, r2)"
        by (cases "createApplications objectKeys now uid (jobsToApply uid matchedJobs db) db []")
      have "db' = db2"
        using assms Some True matched loop
        by (auto simp add: autoApply_def rows_def split: sum.splits)
      moreover from createApplications_appends [OF loop] obtain k where
        "applications db2 =
          applications db @
            map (\<lambda>mj. newApplication objectKeys now uid (fst mj))
              (take k (jobsToApply uid matchedJobs db))"
        by blast
      moreover have "map fst matchedJobs = rows" using matched by (rule includeJob_rows)
      ultimately show ?thesis using Some True by (auto simp add: rows_def)
    qed
  qed
qed

lemma autoApply_unique:
  assumes "autoApply objectKeys today now uid db = (db', r)" and "unique_applications db"
  shows "unique_applications db'"
proof -
  have "db' = db \<or> (\<exists>xs r2. createApplications objectKeys now uid xs db [] = (db', r2))"
    using assms(1)
    by (auto simp add: autoApply_def split: option.splits if_splits sum.splits prod.splits)
  then show ?thesis
    using assms(2) createApplications_unique by blast
qed

lemma findMatchedJobs_example:
  "findMatchedJobs ''user-1'' 50 2 db_example =
     [\<lparr>JobMatchCache.userId = ''user-1'', JobMatchCache.jobId = ''job-2'',
       JobMatchCache.matchScore = 90, matchDetails = None, isFavorite = False,
       isHidden = False, calculatedAt = 500\<rparr>,
      \<lparr>JobMatchCache.userId = ''user-1'', JobMatchCache.jobId = ''job-1'',
       JobMatchCache.matchScore = 78, matchDetails = None, isFavorite = True,
       isHidden = False, calculatedAt = 500\<rparr>]"
  by (simp add: findMatchedJobs_def db_example_def)

lemma dailyCount_example: "dailyCount ''user-1'' 0 db_example = 0"
  by (simp add: dailyCount_def db_example_def)

lemma autoApply_example:
  "autoApply (\<lambda>v. []) 0 2000 ''user-1'' db_example =
     (db_after_autoApply,
      Inr \<lparr>applicationsCreated = 1,
           appliedJobs = [\<lparr>summaryId = ''job-1'', summaryTitle = ''Frontend Engineer'',
             summaryCompany = ''Acme'', summaryMatchScore = 78\<rparr>]\<rparr>)"
proof -
  have prefs: "userPreferences db_example ''user-1'' =
      Some \<lparr>autoApplyEnabled = True, autoApplyThreshold = 50, autoApplyMaxPerDay = 2\<rparr>"
    by (simp add: db_example_def)
  show ?thesis
    apply (simp add: autoApply_def prefs dailyCount_example findMatchedJobs_example)
    apply (simp add: db_example_def jobsToApply_def Let_def newApplication_def
        application_create_def job_increment_def db_after_autoApply_def job_example_def)
    done
qed

text \<open>
  C3. Whatever the database holds, one call of \<open>autoApply\<close> only appends rows to the
  applications; every appended row belongs to the user and to a job for which the user
  had no application before the call; and when no two applications shared their
  \<open>(userId, jobId)\<close> before the call, none do after it. This holds when the call fails
  half way as well.
\<close>

theorem autoApply_no_second_application:
  assumes "autoApply objectKeys today now uid db = (db', r)"
  shows "\<exists>new. applications db' = applications db @ new \<and>
    (\<forall>a \<in> set new. Application.userId a = uid \<and>
       \<not> (\<exists>b \<in> set (applications db).
            Application.userId b = Application.userId a \<and>
            Application.jobId b = Application.jobId a)) \<and>
    (unique_applications db \<longrightarrow> unique_applications db')"
proof -
  have unique: "unique_applications db \<longrightarrow> unique_applications db'"
    using autoApply_unique [OF assms] by blast
  from autoApply_appends [OF assms] show ?thesis
  proof
    assume "applications db' = applications db"
    then have "applications db' = applications db @ []" by simp
    with unique show ?thesis by (intro exI [of _ "[]"]) simp
  next
    assume "\<exists>preferences matchedJobs k.
       userPreferences db uid = Some preferences \<and> autoApplyEnabled preferences \<and>
       int (dailyCount uid today db) < autoApplyMaxPerDay preferences \<and>
       map fst matchedJobs =
         findMatchedJobs uid (autoApplyThreshold preferences)
           (nat (autoApplyMaxPerDay preferences - int (dailyCount uid today db))) db \<and>
       applications db' =
         applications db @
           map (\<lambda>mj. newApplication objectKeys now uid (fst mj))
             (take k (jobsToApply uid matchedJobs db))"
    then obtain matchedJobs k where apps:
      "applications db' =
         applications db @
           map (\<lambda>mj. newApplication objectKeys now uid (fst mj))
             (take k (jobsToApply uid matchedJobs db))"
      by blast
    define new where "new =
      map (\<lambda>mj. newApplication objectKeys now uid (fst mj)) (take k (jobsToApply uid matchedJobs db))"
    have "Application.userId a = uid \<and>
       \<not> (\<exists>b \<in> set (applications db).
            Application.userId b = Application.userId a \<and>
            Application.jobId b = Application.jobId a)" if "a \<in> set new" for a
    proof -
      from that obtain mj where mj: "mj \<in> set (take k (jobsToApply uid matchedJobs db))"
        and a: "a = newApplication objectKeys now uid (fst mj)"
        by (auto simp add: new_def)
      from mj have "mj \<in> set (jobsToApply uid matchedJobs db)" by (rule in_set_takeD)
      from jobsToApply_not_applied [OF this] show ?thesis
        by (simp add: a newApplication_fields)
    qed
    then have fresh: "\<forall>a \<in> set new. Application.userId a = uid \<and>
       \<not> (\<exists>b \<in> set (applications db).
            Application.userId b = Application.userId a \<and>
            Application.jobId b = Application.jobId a)"
      by blast
    have "applications db' = applications db @ new" using apps by (simp add: new_def)
    with fresh unique show ?thesis by blast
  qed
qed

theorem autoApply_no_second_application_witness:
  "autoApply (\<lambda>v. []) 0 2000 ''user-1'' db_example =
     (db_after_autoApply,
      Inr \<lparr>applicationsCreated = 1,
           appliedJobs = [\<lparr>summaryId = ''job-1'', summaryTitle = ''Frontend Engineer'',
             summaryCompany = ''Acme'', summaryMatchScore = 78\<rparr>]\<rparr>) \<and>
   unique_applications db_example \<and> unique_applications db_after_autoApply \<and>
   (\<exists>new. applications db_after_autoApply = applications db_example @ new \<and>
      list_all (\<lambda>a. Application.userId a = ''user-1'' \<and>
         list_all (\<lambda>b. \<not> (Application.userId b = Application.userId a \<and>
            Application.jobId b = Application.jobId a)) (applications db_example)) new)"
proof -
  have u: "unique_applications db_example" by (simp add: unique_applications_def db_example_def)
  from autoApply_no_second_application [OF autoApply_example] u autoApply_example
  show ?thesis by (auto simp add: list_all_iff)
qed

lemma findMatchedJobs_properties:
  "length (findMatchedJobs uid threshold n db) \<le> n"
  "sorted_wrt (\<lambda>m m'. JobMatchCache.matchScore m' \<le> JobMatchCache.matchScore m)
     (findMatchedJobs uid threshold n db)"
  "\<forall>m \<in> set (findMatchedJobs uid threshold n db).
     m \<in> set (jobMatchCache db) \<and> JobMatchCache.userId m = uid \<and>
     threshold \<le> JobMatchCache.matchScore m \<and> \<not> isHidden m"
proof -
  define rows where "rows =
    filter (\<lambda>m. JobMatchCache.userId m = uid \<and> threshold \<le> JobMatchCache.matchScore m \<and>
      \<not> isHidden m) (jobMatchCache db)"
  have f: "findMatchedJobs uid threshold n db =
      take n (sort_key (\<lambda>m. - JobMatchCache.matchScore m) rows)"
    by (simp add: findMatchedJobs_def rows_def)
  show "length (findMatchedJobs uid threshold n db) \<le> n" by (simp add: f)
  have "sorted (map (\<lambda>m. - JobMatchCache.matchScore m)
      (sort_key (\<lambda>m. - JobMatchCache.matchScore m) rows))"
    by (rule sorted_sort_key)
  then have "sorted_wrt (\<lambda>m m'. JobMatchCache.matchScore m' \<le> JobMatchCache.matchScore m)
      (sort_key (\<lambda>m. - JobMatchCache.matchScore m) rows)"
    by (simp add: sorted_map)
  then show "sorted_wrt (\<lambda>m m'. JobMatchCache.matchScore m' \<le> JobMatchCache.matchScore m)
     (findMatchedJobs uid threshold n db)"
    unfolding f by (rule sorted_wrt_take)
  have "set (findMatchedJobs uid threshold n db) \<subseteq> set rows"
    unfolding f using set_take_subset [of n "sort_key (\<lambda>m. - JobMatchCache.matchScore m) rows"]
    by simp
  then show "\<forall>m \<in> set (findMatchedJobs uid threshold n db).
     m \<in> set (jobMatchCache db) \<and> JobMatchCache.userId m = uid \<and>
     threshold \<le> JobMatchCache.matchScore m \<and> \<not> isHidden m"
    by (auto simp add: rows_def)
qed

text \<open>
  C4. A call of \<open>autoApply\<close> that passes its two checks appends at most
  \<open>autoApplyMaxPerDay - dailyCount\<close> applications, where \<open>dailyCount\<close> counts the
  auto-applied applications of the user created since \<open>today\<close>. The jobs of the appended
  rows are, in order, among the jobs of the candidate rows; the candidates are at most
  that many rows, ordered by descending score, each a row of the match cache of the
  user with a score at or above the threshold and not hidden.
\<close>

theorem autoApply_daily_quota:
  assumes "userPreferences db uid = Some preferences"
    and "autoApplyEnabled preferences"
    and "int (dailyCount uid today db) < autoApplyMaxPerDay preferences"
    and "autoApply objectKeys today now uid db = (db', r)"
    and "remaining = nat (autoApplyMaxPerDay preferences - int (dailyCount uid today db))"
    and "candidates = findMatchedJobs uid (autoApplyThreshold preferences) remaining db"
  shows "\<exists>new. applications db' = applications db @ new \<and>
      int (length new) \<le> autoApplyMaxPerDay preferences - int (dailyCount uid today db) \<and>
      subseq (map Application.jobId new) (map JobMatchCache.jobId candidates) \<and>
      length candidates \<le> remaining \<and>
      sorted_wrt (\<lambda>m m'. JobMatchCache.matchScore m' \<le> JobMatchCache.matchScore m) candidates \<and>
      (\<forall>m \<in> set candidates.
         m \<in> set (jobMatchCache db) \<and> JobMatchCache.userId m = uid \<and>
         autoApplyThreshold preferences \<le> JobMatchCache.matchScore m \<and> \<not> isHidden m)"
proof -
  have cand: "length candidates \<le> remaining"
    "sorted_wrt (\<lambda>m m'. JobMatchCache.matchScore m' \<le> JobMatchCache.matchScore m) candidates"
    "\<forall>m \<in> set candidates.
         m \<in> set (jobMatchCache db) \<and> JobMatchCache.userId m = uid \<and>
         autoApplyThreshold preferences \<le> JobMatchCache.matchScore m \<and> \<not> isHidden m"
    unfolding assms(6) by (rule findMatchedJobs_properties)+
  have rem: "int remaining = autoApplyMaxPerDay preferences - int (dailyCount uid today db)"
    using assms(3,5) by simp
  have "\<exists>new. applications db' = applications db @ new \<and> length new \<le> remaining \<and>
      subseq (map Application.jobId new) (map JobMatchCache.jobId candidates)"
    using autoApply_appends [OF assms(4)]
  proof
    assume "applications db' = applications db"
    then show ?thesis by (intro exI [of _ "[]"]) simp
  next
    assume "\<exists>preferences matchedJobs k.
       userPreferences db uid = Some preferences \<and> autoApplyEnabled preferences \<and>
       int (dailyCount uid today db) < autoApplyMaxPerDay preferences \<and>
       map fst matchedJobs =
         findMatchedJobs uid (autoApplyThreshold preferences)
           (nat (autoApplyMaxPerDay preferences - int (dailyCount uid today db))) db \<and>
       applications db' =
         applications db @
           map (\<lambda>mj. newApplication objectKeys now uid (fst mj))
             (take k (jobsToApply uid matchedJobs db))"
    then obtain matchedJobs k where rows: "map fst matchedJobs = candidates"
      and apps: "applications db' =
         applications db @
           map (\<lambda>mj. newApplication objectKeys now uid (fst mj))
             (take k (jobsToApply uid matchedJobs db))"
      using assms(1,5,6) by auto
    define chosen where "chosen = take k (jobsToApply uid matchedJobs db)"
    define new where "new = map (\<lambda>mj. newApplication objectKeys now uid (fst mj)) chosen"
    have "subseq chosen (jobsToApply uid matchedJobs db)"
      unfolding chosen_def by (rule prefix_imp_subseq) (rule take_is_prefix)
    then have sub: "subseq chosen matchedJobs"
      using jobsToApply_subseq by (rule subseq_order.trans)
    then have "length chosen \<le> length matchedJobs" by (rule list_emb_length)
    moreover have "length matchedJobs = length candidates"
      using rows by (metis length_map)
    ultimately have len: "length new \<le> remaining" using cand(1) by (simp add: new_def)
    have "map Application.jobId new = map JobMatchCache.jobId (map fst chosen)"
      by (simp add: new_def newApplication_fields comp_def)
    moreover have "subseq (map JobMatchCache.jobId (map fst chosen))
        (map JobMatchCache.jobId (map fst matchedJobs))"
      using sub by (intro subseq_map)
    ultimately have "subseq (map Application.jobId new) (map JobMatchCache.jobId candidates)"
      using rows by simp
    with apps len show ?thesis by (intro exI [of _ new]) (simp add: new_def chosen_def)
  qed
  then obtain new where "applications db' = applications db @ new" "length new \<le> remaining"
    "subseq (map Application.jobId new) (map JobMatchCache.jobId candidates)" by blast
  moreover from this(2) rem
  have "int (length new) \<le> autoApplyMaxPerDay preferences - int (dailyCount uid today db)"
    by linarith
  ultimately show ?thesis using cand by blast
qed

theorem autoApply_daily_quota_witness:
  "userPreferences db_example ''user-1'' =
     Some \<lparr>autoApplyEnabled = True, autoApplyThreshold = 50, autoApplyMaxPerDay = 2\<rparr> \<and>
   dailyCount ''user-1'' 0 db_example = 0 \<and>
   (\<exists>new. applications db_after_autoApply = applications db_example @ new \<and>
      int (length new) \<le> 2 \<and>
      subseq (map Application.jobId new) [''job-2'', ''job-1''])"
proof -
  have prefs: "userPreferences db_example ''user-1'' =
      Some \<lparr>autoApplyEnabled = True, autoApplyThreshold = 50, autoApplyMaxPerDay = 2\<rparr>"
    by (simp add: db_example_def)
  have "\<exists>new. applications db_after_autoApply = applications db_example @ new \<and>
      int (length new) \<le> 2 - int 0 \<and>
      subseq (map Application.jobId new)
        (map JobMatchCache.jobId (findMatchedJobs ''user-1'' 50 2 db_example)) \<and>
      length (findMatchedJobs ''user-1'' 50 2 db_example) \<le> 2 \<and>
      sorted_wrt (\<lambda>m m'. JobMatchCache.matchScore m' \<le> JobMatchCache.matchScore m)
        (findMatchedJobs ''user-1'' 50 2 db_example) \<and>
      list_all (\<lambda>m. m \<in> set (jobMatchCache db_example) \<and> JobMatchCache.userId m = ''user-1'' \<and>
         50 \<le> JobMatchCache.matchScore m \<and> \<not> isHidden m)
        (findMatchedJobs ''user-1'' 50 2 db_example)"
    using autoApply_daily_quota [OF prefs _ _ autoApply_example, of 2
        "findMatchedJobs ''user-1'' 50 2 db_example"]
    by (simp add: dailyCount_example list_all_iff)
  then show ?thesis
    using prefs by (auto simp add: dailyCount_example findMatchedJobs_example)
qed

end
